theory Spec2Isabelle
  imports Complex_Main
begin

section \<open>Time and the decision state machine\<close>

text \<open>
  \<^verbatim>\<open>rclcpp::Time\<close> counts nanoseconds in a 64-bit integer; the difference of two
  readings is a duration, and \<^verbatim>\<open>seconds()\<close> turns it into a \<^verbatim>\<open>double\<close>. Readings are
  modelled as integers (nanoseconds) and every \<^verbatim>\<open>double\<close> of the program as a real
  number: the arithmetic below is the exact one, without rounding.
\<close>

type_synonym Time = int

definition seconds :: "int \<Rightarrow> real" where
  "seconds d = real_of_int d / 1000000000"

text \<open>\<^verbatim>\<open>enum class State\<close> of the module: the two decisions.\<close>

datatype State = STOP | GO

text \<open>
  \<^verbatim>\<open>IntersectionModule::StateMachine\<close>: the current decision, the margin time and the
  pending timestamp \<^verbatim>\<open>start_time_\<close> (a shared pointer, \<^verbatim>\<open>nullptr\<close> when nothing is
  pending). An identifier cannot end with an underscore here, so a member \<^verbatim>\<open>name_\<close> of
  a class is the field \<open>m_name\<close> of its record.
\<close>

record StateMachine =
  m_state :: State
  m_margin_time :: real
  m_start_time :: "Time option"

definition setMarginTime :: "real \<Rightarrow> StateMachine \<Rightarrow> StateMachine" where
  "setMarginTime t sm = sm\<lparr>m_margin_time := t\<rparr>"

definition setState :: "State \<Rightarrow> StateMachine \<Rightarrow> StateMachine" where
  "setState state sm = sm\<lparr>m_state := state\<rparr>"

definition getState :: "StateMachine \<Rightarrow> State" where
  "getState sm = m_state sm"

text \<open>
  \<^verbatim>\<open>setStateWithMarginTime(state, logger, clock)\<close>; \<open>now\<close> is the value
  \<^verbatim>\<open>clock.now()\<close> returns during the call. The branches are in the order of the source;
  the last one is the request that is neither STOP nor GO, which is logged and ignored.
\<close>

definition setStateWithMarginTime :: "State \<Rightarrow> Time \<Rightarrow> StateMachine \<Rightarrow> StateMachine" where
  "setStateWithMarginTime state now sm =
     (if m_state sm = state then sm\<lparr>m_start_time := None\<rparr>
      else if state = STOP then sm\<lparr>m_state := STOP, m_start_time := None\<rparr>
      else if state = GO then
        (case m_start_time sm of
           None \<Rightarrow> sm\<lparr>m_start_time := Some now\<rparr>
         | Some t0 \<Rightarrow>
             (let duration = seconds (now - t0)
              in if duration > m_margin_time sm
                 then sm\<lparr>m_state := GO, m_start_time := None\<rparr>
                 else sm))
      else sm)"

text \<open>
  A sequence of evaluations of one instance: each entry is the requested state and the
  clock reading of that evaluation, oldest first.
\<close>

fun run_requests :: "StateMachine \<Rightarrow> (State \<times> Time) list \<Rightarrow> StateMachine" where
  "run_requests sm [] = sm"
| "run_requests sm ((state, now) # evs) = run_requests (setStateWithMarginTime state now sm) evs"

text \<open>
  The pending timestamp, when there is one, was recorded by a GO request that only GO
  requests have followed, and the machine is in STOP.
\<close>

definition pending_since :: "StateMachine \<Rightarrow> (State \<times> Time) list \<Rightarrow> bool" where
  "pending_since sm evs =
     (case m_start_time sm of
        None \<Rightarrow> True
      | Some t \<Rightarrow> m_state sm = STOP \<and>
          (\<exists>pre mid. evs = pre @ (GO, t) # mid \<and> (\<forall>e \<in> set mid. fst e = GO)))"

section \<open>Messages, map and planner data\<close>

text \<open>
  Points of the plane are pairs of coordinates; a polygon or a line string is the list
  of its points. The conversions between the point types of the message, map and
  polygon libraries (\<^verbatim>\<open>to_bg2d\<close>, \<^verbatim>\<open>toBoostPoly\<close>, \<^verbatim>\<open>to2D\<close>, \<^verbatim>\<open>basicPolygon\<close>,
  \<^verbatim>\<open>toGeomMsg\<close>) keep the x and y coordinates and are not written.
\<close>

type_synonym Point2d = "real \<times> real"

type_synonym Polygon2d = "Point2d list"

type_synonym Quaternion = "real \<times> real \<times> real \<times> real"

text \<open>\<^verbatim>\<open>geometry_msgs::msg::Pose\<close>: the position (x, y, z) and the orientation.\<close>

record Pose =
  position :: "real \<times> real \<times> real"
  orientation :: Quaternion

definition to_bg2d :: "real \<times> real \<times> real \<Rightarrow> Point2d" where
  "to_bg2d p = (fst p, fst (snd p))"

text \<open>
  The classification label \<^verbatim>\<open>object.semantic.type\<close>: the constants of the message
  \<^verbatim>\<open>autoware_perception_msgs::msg::Semantic\<close>, as an enumeration.
\<close>

datatype Semantic = UNKNOWN | CAR | TRUCK | BUS | BICYCLE | MOTORBIKE | PEDESTRIAN | ANIMAL

text \<open>\<^verbatim>\<open>autoware_perception_msgs::msg::Shape\<close>: the kind of shape and its data.\<close>

datatype ShapeType = BOUNDING_BOX | CYLINDER | POLYGON

text \<open>A timestamped pose of a predicted path (\<^verbatim>\<open>header.stamp\<close> and \<^verbatim>\<open>pose.pose\<close>).\<close>

record PredictedPose =
  header_stamp :: Time
  pose_pose :: Pose

record PredictedPath =
  path_poses :: "PredictedPose list"
  confidence :: real

text \<open>
  \<^verbatim>\<open>autoware_perception_msgs::msg::DynamicObject\<close>, with the fields the module reads:
  \<^verbatim>\<open>semantic.type\<close>, \<^verbatim>\<open>state.pose_covariance.pose\<close>, \<^verbatim>\<open>state.orientation_reliable\<close>,
  \<^verbatim>\<open>state.twist_covariance.twist.linear.x\<close>, \<^verbatim>\<open>state.predicted_paths\<close>, \<^verbatim>\<open>shape.type\<close>,
  \<^verbatim>\<open>shape.dimensions\<close> and \<^verbatim>\<open>shape.footprint\<close>.
\<close>

record DynamicObject =
  object_id :: nat
  semantic_type :: Semantic
  state_pose :: Pose
  orientation_reliable :: bool
  state_twist_linear_x :: real
  predicted_paths :: "PredictedPath list"
  shape_type :: ShapeType
  shape_dimensions :: "real \<times> real \<times> real"
  shape_footprint :: Polygon2d

text \<open>
  A waypoint of \<^verbatim>\<open>PathWithLaneId\<close>: \<^verbatim>\<open>point.pose\<close>, the target velocity
  \<^verbatim>\<open>point.twist.linear.x\<close> and the lane identifiers.
\<close>

record PathPointWithLaneId =
  point_pose :: Pose
  point_twist_linear_x :: real
  lane_ids :: "int list"

type_synonym PathWithLaneId = "PathPointWithLaneId list"

text \<open>
  A lanelet of the map: its identifier, its attributes, its regulatory elements and its
  two bounds. The regulatory elements are those of
  \<^verbatim>\<open>lanelet2_core/primitives/BasicRegulatoryElements.h\<close>.
\<close>

datatype RegulatoryElement = TrafficLight | RightOfWay | TrafficSign | SpeedLimit | AllWayStop

record Lanelet =
  ll_id :: int
  attributes :: "string \<rightharpoonup> string"
  regulatory_elements :: "RegulatoryElement list"
  left_bound :: "Point2d list"
  right_bound :: "Point2d list"

text \<open>\<^verbatim>\<open>lanelet::LaneletMap\<close>: the lanelet layer, looked up by identifier.\<close>

record LaneletMap =
  laneletLayer :: "int \<rightharpoonup> Lanelet"

definition attributeOr :: "Lanelet \<Rightarrow> string \<Rightarrow> string \<Rightarrow> string" where
  "attributeOr ll k default_value = (case attributes ll k of None \<Rightarrow> default_value | Some v \<Rightarrow> v)"

definition regulatoryElementsAs_TrafficLight :: "Lanelet \<Rightarrow> RegulatoryElement list" where
  "regulatoryElementsAs_TrafficLight ll = filter (\<lambda>r. r = TrafficLight) (regulatory_elements ll)"

text \<open>
  The status of \<^verbatim>\<open>autoware_api_msgs::msg::IntersectionStatus\<close>: the two constants the
  module names, as an enumeration.
\<close>

datatype IntersectionStatus = IntersectionStatus_STOP | IntersectionStatus_GO

record ExternalInput =
  ext_header_stamp :: Time
  ext_status :: IntersectionStatus

text \<open>\<^verbatim>\<open>PlannerParam\<close> of the module: the thresholds it reads.\<close>

record PlannerParam =
  state_transit_margin_time :: real
  decel_velocity :: real
  stuck_vehicle_detect_dist :: real
  stuck_vehicle_ignore_dist :: real
  stuck_vehicle_vel_thr :: real
  intersection_velocity :: real
  intersection_max_acc :: real
  detection_area_length :: real
  detection_area_margin :: real
  detection_area_angle_thr :: real
  min_predicted_path_confidence :: real
  external_input_timeout :: real
  collision_start_margin_time :: real
  collision_end_margin_time :: real

text \<open>
  \<^verbatim>\<open>PlannerData\<close>: the snapshot a cycle reads. The routing graph is the list of the
  successor edges between lanelet identifiers.
\<close>

record PlannerData =
  current_pose :: Pose
  current_velocity :: real
  max_longitudinal_offset_m :: real
  vehicle_length_m :: real
  dynamic_objects :: "DynamicObject list"
  external_intersection_status_input :: "ExternalInput option"
  lanelet_map :: LaneletMap
  routing_graph :: "(int \<times> int) list"

text \<open>
  The readings of the clock during one cycle, in the order the cycle takes them: one in
  each of the two calls of \<^verbatim>\<open>isTargetExternalInputStatus\<close>, one in
  \<^verbatim>\<open>cutPredictPathWithDuration\<close> and one in \<^verbatim>\<open>setStateWithMarginTime\<close>.
\<close>

record CycleClock =
  now_external_go :: Time
  now_external_stop :: Time
  now_cut_predict_path :: Time
  now_state_machine :: Time

text \<open>
  \<^verbatim>\<open>DebugData\<close>: the diagnostic record of a cycle. A member \<^verbatim>\<open>name\<close> is the field \<open>dbg_name\<close>; the wall
  poses, which only the visualisation reads, are left out.
\<close>

record DebugData =
  dbg_stop_required :: bool
  dbg_path_raw :: PathWithLaneId
  dbg_stop_point_pose :: "Pose option"
  dbg_judge_point_pose :: "Pose option"
  dbg_ego_lane_polygon :: Polygon2d
  dbg_stuck_vehicle_detect_area :: Polygon2d
  dbg_candidate_collision_ego_lane_polygon :: Polygon2d
  dbg_candidate_collision_object_polygons :: "Polygon2d list"
  dbg_detection_area :: "Polygon2d list"
  dbg_conflicting_targets :: "DynamicObject list"
  dbg_stuck_targets :: "DynamicObject list"

definition DebugData_init :: DebugData where
  "DebugData_init =
     \<lparr>dbg_stop_required = False, dbg_path_raw = [], dbg_stop_point_pose = None, dbg_judge_point_pose = None,
      dbg_ego_lane_polygon = [], dbg_stuck_vehicle_detect_area = [],
      dbg_candidate_collision_ego_lane_polygon = [], dbg_candidate_collision_object_polygons = [],
      dbg_detection_area = [], dbg_conflicting_targets = [], dbg_stuck_targets = []\<rparr>"

text \<open>
  A stop factor of the stop reason: the stop pose and the points of the objects that
  caused the stop.
\<close>

record StopFactor =
  stop_pose :: Pose
  stop_factor_points :: "(real \<times> real \<times> real) list"

type_synonym StopReason = "StopFactor list"

text \<open>The members of \<^verbatim>\<open>IntersectionModule\<close>.\<close>

record IntersectionModule =
  m_lane_id :: int
  m_turn_direction :: string
  m_has_traffic_light :: bool
  m_planner_param :: PlannerParam
  m_state_machine :: StateMachine
  m_debug_data :: DebugData

text \<open>
  Functions of the libraries and of the planner's utilities that the module calls and
  whose code is not part of the module: the polygon predicates of the geometry library,
  the arc-length functions of the map library, the quaternion functions, and the
  utilities that extract the areas, place the stop line and find the closest index.
  The module is verified for every choice of them.
  \<^item> \<open>bg_within\<close>, \<open>bg_distance\<close>, \<open>bg_intersects_linestring\<close>, \<open>bg_intersects\<close>:
    \<^verbatim>\<open>bg::within\<close> of a point and a polygon, \<^verbatim>\<open>bg::distance\<close> of a point and a polygon,
    \<^verbatim>\<open>bg::intersects\<close> of a polygon and a line string, and of two polygons.
  \<^item> \<open>getArcCoordinates_length\<close>, \<open>getLaneletLength3d\<close>, \<open>getPolygonFromArcLength\<close>,
    \<open>isInLanelet\<close>, \<open>getLaneletAngle\<close>, \<open>centerline2d_front\<close>: the functions of
    \<^verbatim>\<open>lanelet::utils\<close> of these names.
  \<^item> \<open>getYaw\<close>, \<open>invert_yaw\<close>, \<open>normalizeRadian\<close>: the yaw of a quaternion, the
    quaternion with the yaw negated (\<^verbatim>\<open>getEulerYPR\<close> followed by \<^verbatim>\<open>setRPY(roll, pitch, -yaw)\<close>),
    and the normalisation of an angle.
  \<^item> \<open>obj2polygon\<close>: the footprint rectangle of a pose and the dimensions of a shape.
  \<^item> \<open>objective_areas\<close>: \<^verbatim>\<open>util::getObjectiveLanelets\<close> followed by
    \<^verbatim>\<open>util::getPolygon3dFromLaneletsVec\<close> and \<^verbatim>\<open>util::getLaneletIdsFromLaneletsVec\<close>; the
    result is the conflicting areas, the detection areas and the lanelet identifiers of
    the detection areas.
  \<^item> \<open>generateStopLine\<close>: \<^verbatim>\<open>util::generateStopLine\<close>, which receives the path through
    a pointer and the three indices through pointers too; the result is the value it
    returns, the path as it leaves it, and the stop-line index, the pass-judge-line
    index and the first index inside the lane as it leaves them (the cycle hands them
    over as \<open>- 1\<close>).
  \<^item> \<open>calcClosestIndex\<close>: \<^verbatim>\<open>planning_utils::calcClosestIndex\<close>; \<open>None\<close> when it returns
    false.
  \<^item> \<open>isAheadOf\<close>, \<open>calcArcLengthFromPath\<close>: the utilities of these names.
\<close>

record Lib =
  bg_within :: "Point2d \<Rightarrow> Polygon2d \<Rightarrow> bool"
  bg_distance :: "Point2d \<Rightarrow> Polygon2d \<Rightarrow> real"
  bg_intersects_linestring :: "Polygon2d \<Rightarrow> Point2d list \<Rightarrow> bool"
  bg_intersects :: "Polygon2d \<Rightarrow> Polygon2d \<Rightarrow> bool"
  getArcCoordinates_length :: "Lanelet list \<Rightarrow> Pose \<Rightarrow> real"
  getLaneletLength3d :: "Lanelet \<Rightarrow> real"
  getPolygonFromArcLength :: "Lanelet list \<Rightarrow> real \<Rightarrow> real \<Rightarrow> Polygon2d"
  isInLanelet :: "Pose \<Rightarrow> Lanelet \<Rightarrow> real \<Rightarrow> bool"
  getLaneletAngle :: "Lanelet \<Rightarrow> real \<times> real \<times> real \<Rightarrow> real"
  centerline2d_front :: "Lanelet \<Rightarrow> Point2d"
  getYaw :: "Quaternion \<Rightarrow> real"
  invert_yaw :: "Quaternion \<Rightarrow> Quaternion"
  normalizeRadian :: "real \<Rightarrow> real"
  obj2polygon :: "Pose \<Rightarrow> real \<times> real \<times> real \<Rightarrow> Polygon2d"
  objective_areas ::
    "LaneletMap \<Rightarrow> (int \<times> int) list \<Rightarrow> int \<Rightarrow> PlannerParam \<Rightarrow>
       Polygon2d list \<times> Polygon2d list \<times> int list"
  generateStopLine ::
    "int \<Rightarrow> Polygon2d list \<Rightarrow> PlannerData \<Rightarrow> PlannerParam \<Rightarrow> PathWithLaneId \<Rightarrow>
       bool \<times> PathWithLaneId \<times> int \<times> int \<times> int"
  calcClosestIndex :: "PathWithLaneId \<Rightarrow> Pose \<Rightarrow> int option"
  isAheadOf :: "Pose \<Rightarrow> Pose \<Rightarrow> bool"
  calcArcLengthFromPath :: "PathWithLaneId \<Rightarrow> nat \<Rightarrow> nat \<Rightarrow> real"

text \<open>
  How a call ends when it does not return: \<^verbatim>\<open>std::vector::at\<close> out of range,
  \<^verbatim>\<open>laneletLayer.get\<close> of an identifier the map does not have, and the dereference of
  an iterator that points to no element.
\<close>

datatype Failure = out_of_range | NoSuchPrimitiveError | invalid_iterator

type_synonym 'a result = "Failure + 'a"

definition bind_result :: "'a result \<Rightarrow> ('a \<Rightarrow> 'b result) \<Rightarrow> 'b result" where
  "bind_result r f = (case r of Inl e \<Rightarrow> Inl e | Inr v \<Rightarrow> f v)"

text \<open>\<^verbatim>\<open>std::vector::at\<close> with a signed index: a negative index is out of range.\<close>

definition at_idx :: "'a list \<Rightarrow> int \<Rightarrow> 'a result" where
  "at_idx xs i = (if 0 \<le> i \<and> i < int (length xs) then Inr (xs ! nat i) else Inl out_of_range)"

text \<open>\<^verbatim>\<open>laneletLayer.get(id)\<close>.\<close>

definition laneletLayer_get :: "LaneletMap \<Rightarrow> int \<Rightarrow> Lanelet result" where
  "laneletLayer_get m i =
     (case laneletLayer m i of None \<Rightarrow> Inl NoSuchPrimitiveError | Some ll \<Rightarrow> Inr ll)"

text \<open>\<^verbatim>\<open>front()\<close> of a vector; on an empty one it has no element to return.\<close>

definition front :: "'a list \<Rightarrow> 'a result" where
  "front xs = (case xs of [] \<Rightarrow> Inl invalid_iterator | x # _ \<Rightarrow> Inr x)"

section \<open>The time-distance profile\<close>

text \<open>
  Modelled from the spec: \<^verbatim>\<open>planning_utils::calcDist2d\<close> is a utility of the planner
  that is not part of the module. It is the length, in the plane, of the segment between
  two waypoints.
\<close>

definition calcDist2d :: "PathPointWithLaneId \<Rightarrow> PathPointWithLaneId \<Rightarrow> real" where
  "calcDist2d p q =
     (let a = to_bg2d (position (point_pose p)); b = to_bg2d (position (point_pose q))
      in sqrt ((fst a - fst b)\<^sup>2 + (snd a - snd b)\<^sup>2))"

text \<open>
  Modelled from the spec: \<^verbatim>\<open>util::hasLaneId\<close> is a utility of the intersection module
  that is not part of these sources. A waypoint has a lane identifier when it is tagged
  with it.
\<close>

definition hasLaneId :: "PathPointWithLaneId \<Rightarrow> int \<Rightarrow> bool" where
  "hasLaneId p lane = (lane \<in> set (lane_ids p))"

type_synonym TimeDistanceArray = "(real \<times> real) list"

text \<open>
  The loop of \<^verbatim>\<open>calcIntersectionPassingTime\<close>, over the waypoints \<open>i = closest_idx + 1\<close>
  and after: \<open>prev\<close> is the waypoint \<open>i - 1\<close>, the list holds the waypoints from \<open>i\<close> on,
  and the other arguments are the local variables of the function. The result is the
  last value of \<^verbatim>\<open>assigned_lane_found\<close> and the array.
\<close>

fun passing_time_loop ::
  "PlannerParam \<Rightarrow> int \<Rightarrow> PathPointWithLaneId \<Rightarrow> PathPointWithLaneId list \<Rightarrow>
     real \<Rightarrow> real \<Rightarrow> real \<Rightarrow> bool \<Rightarrow> TimeDistanceArray \<Rightarrow> bool \<times> TimeDistanceArray" where
  "passing_time_loop pp objective_lane_id prev [] closest_vel dist_sum passing_time
     assigned_lane_found time_distance_array = (assigned_lane_found, time_distance_array)"
| "passing_time_loop pp objective_lane_id prev (p # ps) closest_vel dist_sum passing_time
     assigned_lane_found time_distance_array =
     (let dist = calcDist2d prev p;
          dist_sum' = dist_sum + dist;
          next_vel = min (sqrt (closest_vel\<^sup>2 + 2 * intersection_max_acc pp * dist))
                         (intersection_velocity pp);
          average_vel = min ((closest_vel + next_vel) / 2) (intersection_velocity pp);
          passing_time' = passing_time + dist / average_vel;
          time_distance_array' = time_distance_array @ [(passing_time', dist_sum')];
          has_objective_lane_id = hasLaneId p objective_lane_id
      in if assigned_lane_found \<and> \<not> has_objective_lane_id
         then (assigned_lane_found, time_distance_array')
         else passing_time_loop pp objective_lane_id p ps next_vel dist_sum' passing_time'
                has_objective_lane_id time_distance_array')"

text \<open>
  \<^verbatim>\<open>calcIntersectionPassingTime\<close>. The loop variable is a \<^verbatim>\<open>size_t\<close> that starts at
  \<^verbatim>\<open>closest_idx + 1\<close>: from \<open>- 1\<close> it starts at zero and the first \<^verbatim>\<open>at(i - 1)\<close> is out of
  range, and from an index below \<open>- 1\<close> it starts beyond every size, so the loop does not
  run.
\<close>

definition calcIntersectionPassingTime ::
  "PlannerData \<Rightarrow> PlannerParam \<Rightarrow> PathWithLaneId \<Rightarrow> int \<Rightarrow> int \<Rightarrow> TimeDistanceArray result" where
  "calcIntersectionPassingTime pd pp path closest_idx objective_lane_id =
     (let closest_vel = max (1 / 10) \<bar>current_velocity pd\<bar>;
          dist_sum = 0;
          passing_time = 0;
          time_distance_array = [(passing_time, dist_sum)]
      in if closest_idx = - 1 \<and> path \<noteq> [] then Inl out_of_range
         else if closest_idx < 0 then Inr [(0, 0)]
         else
           (case passing_time_loop pp objective_lane_id (path ! nat closest_idx)
                   (drop (nat closest_idx + 1) path) closest_vel dist_sum passing_time False
                   time_distance_array of
              (assigned_lane_found, arr) \<Rightarrow>
                if \<not> assigned_lane_found then Inr [(0, 0)] else Inr arr))"

subsection \<open>The profile as the specification describes it\<close>

text \<open>
  The waypoints the simulation covers: those after the closest index, up to and
  including the first one that is no longer tagged with the lane identifier after the
  tag has been seen.
\<close>

definition spec_covered :: "int \<Rightarrow> PathPointWithLaneId list \<Rightarrow> PathPointWithLaneId list" where
  "spec_covered lane ps =
     (let untagged = (\<lambda>p. lane \<notin> set (lane_ids p));
          tagged = (\<lambda>p. lane \<in> set (lane_ids p));
          rest = dropWhile untagged ps
      in takeWhile untagged ps @ takeWhile tagged rest @ take 1 (dropWhile tagged rest))"

text \<open>
  The pairs appended for the segments: for a segment of length \<open>d\<close> entered at speed
  \<open>v\<close>, the next speed is \<open>min (sqrt (v\<^sup>2 + 2 a d)) v_cap\<close>, the average speed is
  \<open>min ((v + v_next) / 2) v_cap\<close>, the time grows by \<open>d\<close> over the average speed and the
  arc length by \<open>d\<close>.
\<close>

fun spec_pairs ::
  "real \<Rightarrow> real \<Rightarrow> PathPointWithLaneId \<Rightarrow> PathPointWithLaneId list \<Rightarrow> real \<Rightarrow> real \<Rightarrow> real \<Rightarrow>
     TimeDistanceArray" where
  "spec_pairs a_max v_cap prev [] v t s = []"
| "spec_pairs a_max v_cap prev (p # ps) v t s =
     (let d = calcDist2d prev p;
          v_next = min (sqrt (v\<^sup>2 + 2 * a_max * d)) v_cap;
          v_avg = min ((v + v_next) / 2) v_cap
      in (t + d / v_avg, s + d) # spec_pairs a_max v_cap p ps v_next (t + d / v_avg) (s + d))"

definition spec_profile ::
  "real \<Rightarrow> real \<Rightarrow> real \<Rightarrow> real \<Rightarrow> int \<Rightarrow> PathPointWithLaneId \<Rightarrow> PathPointWithLaneId list \<Rightarrow>
     TimeDistanceArray" where
  "spec_profile epsilon a_max v_cap current_speed lane closest after =
     (0, 0) # spec_pairs a_max v_cap closest (spec_covered lane after)
                (max epsilon \<bar>current_speed\<bar>) 0 0"

section \<open>The ego corridor\<close>

text \<open>
  \<^verbatim>\<open>std::find_if\<close> with the predicate \<^verbatim>\<open>p.lane_ids.front() == lane_id_\<close>: the number
  of waypoints before the first one that satisfies it, the length of the list when none
  does. The predicate reads the first lane identifier of every waypoint it visits.
\<close>

fun find_if_front_lane :: "int \<Rightarrow> PathPointWithLaneId list \<Rightarrow> nat result" where
  "find_if_front_lane lane [] = Inr 0"
| "find_if_front_lane lane (p # ps) =
     bind_result (front (lane_ids p)) (\<lambda>l.
       if l = lane then Inr 0
       else bind_result (find_if_front_lane lane ps) (\<lambda>k. Inr (Suc k)))"

text \<open>
  \<^verbatim>\<open>getEgoLaneWithNextLane\<close>. The search runs over the reversed path; \<open>base\<close> is the
  index \<^verbatim>\<open>last_itr.base()\<close> points to, the one after the last waypoint whose first lane
  identifier is the module's (zero when there is no such waypoint).
\<close>

definition getEgoLaneWithNextLane ::
  "LaneletMap \<Rightarrow> int \<Rightarrow> PathWithLaneId \<Rightarrow> Lanelet list result" where
  "getEgoLaneWithNextLane lanelet_map_ptr lane path =
     bind_result (laneletLayer_get lanelet_map_ptr lane) (\<lambda>assigned_lanelet.
     bind_result (find_if_front_lane lane (rev path)) (\<lambda>k.
       let base = length path - k
       in if base \<noteq> length path
          then bind_result (front (lane_ids (path ! base))) (\<lambda>next_id.
               bind_result (laneletLayer_get lanelet_map_ptr next_id) (\<lambda>next_lanelet.
                 Inr [assigned_lanelet, next_lanelet]))
          else Inr [assigned_lanelet]))"

text \<open>
  \<^verbatim>\<open>calcDistanceUntilIntersectionLanelet\<close>. Its parameter \<^verbatim>\<open>closest_idx\<close> is a
  \<^verbatim>\<open>size_t\<close>: a negative index of the caller arrives as a value above every index.
\<close>

definition calcDistanceUntilIntersectionLanelet ::
  "Lib \<Rightarrow> LaneletMap \<Rightarrow> int \<Rightarrow> PathWithLaneId \<Rightarrow> int \<Rightarrow> real result" where
  "calcDistanceUntilIntersectionLanelet L lanelet_map_ptr lane path closest_idx =
     bind_result (laneletLayer_get lanelet_map_ptr lane) (\<lambda>assigned_lanelet.
     bind_result (find_if_front_lane lane path) (\<lambda>first.
       if first = 0 \<or> first = length path then Inr 0
       else
         (let dst_idx = first - 1
          in if closest_idx < 0 \<or> closest_idx > int dst_idx then Inr 0
             else
               (let distance = calcArcLengthFromPath L path (nat closest_idx) dst_idx;
                    lane_first_point = centerline2d_front L assigned_lanelet;
                    q = to_bg2d (position (point_pose (path ! dst_idx)))
                in Inr (distance +
                     sqrt ((fst q - fst lane_first_point)\<^sup>2 + (snd q - snd lane_first_point)\<^sup>2))))))"

text \<open>\<^verbatim>\<open>generateEgoIntersectionLanePolygon\<close>.\<close>

definition generateEgoIntersectionLanePolygon ::
  "Lib \<Rightarrow> LaneletMap \<Rightarrow> int \<Rightarrow> PathWithLaneId \<Rightarrow> int \<Rightarrow> int \<Rightarrow> real \<Rightarrow> real \<Rightarrow> Polygon2d result" where
  "generateEgoIntersectionLanePolygon L lanelet_map_ptr lane path closest_idx start_idx
     extra_dist ignore_dist =
     bind_result (getEgoLaneWithNextLane lanelet_map_ptr lane path) (\<lambda>ego_lane_with_next_lane.
     bind_result (at_idx path start_idx) (\<lambda>start_point.
     bind_result (at_idx path closest_idx) (\<lambda>closest_point.
     bind_result (front ego_lane_with_next_lane) (\<lambda>ego_front.
       let start_arc = getArcCoordinates_length L ego_lane_with_next_lane (point_pose start_point);
           closest_arc = getArcCoordinates_length L ego_lane_with_next_lane (point_pose closest_point);
           start_arc_length =
             (if start_arc + ignore_dist < closest_arc then closest_arc
              else start_arc + ignore_dist);
           end_arc_length = getLaneletLength3d L ego_front + extra_dist;
           target_polygon =
             getPolygonFromArcLength L ego_lane_with_next_lane start_arc_length end_arc_length
       in if target_polygon = [] then Inr []
          else Inr (target_polygon @ [hd target_polygon])))))"

section \<open>Object filters and footprints\<close>

definition isTargetCollisionVehicleType :: "DynamicObject \<Rightarrow> bool" where
  "isTargetCollisionVehicleType object =
     (if semantic_type object = CAR \<or> semantic_type object = BUS \<or>
         semantic_type object = TRUCK \<or> semantic_type object = MOTORBIKE \<or>
         semantic_type object = BICYCLE
      then True else False)"

definition isTargetStuckVehicleType :: "DynamicObject \<Rightarrow> bool" where
  "isTargetStuckVehicleType object =
     (if semantic_type object = CAR \<or> semantic_type object = BUS \<or>
         semantic_type object = TRUCK \<or> semantic_type object = MOTORBIKE
      then True else False)"

definition toFootprintPolygon :: "Lib \<Rightarrow> DynamicObject \<Rightarrow> Polygon2d" where
  "toFootprintPolygon L object =
     (if shape_type object = POLYGON then shape_footprint object
      else obj2polygon L (state_pose object) (shape_dimensions object))"

definition toPredictedFootprintPolygon :: "Lib \<Rightarrow> DynamicObject \<Rightarrow> PredictedPose \<Rightarrow> Polygon2d" where
  "toPredictedFootprintPolygon L object predicted_pose =
     obj2polygon L (pose_pose predicted_pose) (shape_dimensions object)"

definition getObjectPoseWithVelocityDirection :: "Lib \<Rightarrow> DynamicObject \<Rightarrow> Pose" where
  "getObjectPoseWithVelocityDirection L obj_state =
     (if orientation_reliable obj_state then state_pose obj_state
      else if state_twist_linear_x obj_state \<ge> 0 then state_pose obj_state
      else (state_pose obj_state)
             \<lparr>orientation := invert_yaw L (orientation (state_pose obj_state))\<rparr>)"

text \<open>\<^verbatim>\<open>checkAngleForTargetLanelets\<close>: the loop over the lanelet identifiers.\<close>

fun checkAngleForTargetLanelets ::
  "Lib \<Rightarrow> PlannerData \<Rightarrow> PlannerParam \<Rightarrow> Pose \<Rightarrow> int list \<Rightarrow> bool result" where
  "checkAngleForTargetLanelets L pd pp pose [] = Inr False"
| "checkAngleForTargetLanelets L pd pp pose (lanelet_id # target_lanelet_ids) =
     bind_result (laneletLayer_get (lanelet_map pd) lanelet_id) (\<lambda>ll.
       if \<not> isInLanelet L pose ll (detection_area_margin pp)
       then checkAngleForTargetLanelets L pd pp pose target_lanelet_ids
       else
         (let ll_angle = getLaneletAngle L ll (position pose);
              pose_angle = getYaw L (orientation pose);
              angle_diff = normalizeRadian L (ll_angle - pose_angle)
          in if \<bar>angle_diff\<bar> < detection_area_angle_thr pp then Inr True
             else checkAngleForTargetLanelets L pd pp pose target_lanelet_ids))"

section \<open>Stuck-vehicle detection\<close>

text \<open>
  The loop of \<^verbatim>\<open>checkStuckVehicleInIntersection\<close> over the objects. The library defines
  \<^verbatim>\<open>bg::intersects\<close> as the negation of \<^verbatim>\<open>bg::disjoint\<close>, so \<^verbatim>\<open>!bg::disjoint\<close> is
  \<open>bg_intersects\<close>.
\<close>

fun stuck_loop ::
  "Lib \<Rightarrow> PlannerParam \<Rightarrow> Polygon2d \<Rightarrow> DynamicObject list \<Rightarrow> DebugData \<Rightarrow> bool \<times> DebugData" where
  "stuck_loop L pp stuck_vehicle_detect_area [] dbg = (False, dbg)"
| "stuck_loop L pp stuck_vehicle_detect_area (object # objects) dbg =
     (if \<not> isTargetStuckVehicleType object
      then stuck_loop L pp stuck_vehicle_detect_area objects dbg
      else
        (let obj_v = \<bar>state_twist_linear_x object\<bar>
         in if obj_v > stuck_vehicle_vel_thr pp
            then stuck_loop L pp stuck_vehicle_detect_area objects dbg
            else
              (let obj_footprint = toFootprintPolygon L object;
                   is_in_stuck_area = bg_intersects L obj_footprint stuck_vehicle_detect_area
               in if is_in_stuck_area
                  then (True, dbg\<lparr>dbg_stuck_targets := dbg_stuck_targets dbg @ [object]\<rparr>)
                  else stuck_loop L pp stuck_vehicle_detect_area objects dbg)))"

definition checkStuckVehicleInIntersection ::
  "Lib \<Rightarrow> PlannerData \<Rightarrow> PlannerParam \<Rightarrow> int \<Rightarrow> PathWithLaneId \<Rightarrow> int \<Rightarrow> int \<Rightarrow>
     DynamicObject list \<Rightarrow> DebugData \<Rightarrow> (bool \<times> DebugData) result" where
  "checkStuckVehicleInIntersection L pd pp lane path closest_idx stop_idx objects dbg =
     (let detect_length = stuck_vehicle_detect_dist pp + vehicle_length_m pd
      in bind_result
           (generateEgoIntersectionLanePolygon L (lanelet_map pd) lane path closest_idx stop_idx
              detect_length (stuck_vehicle_ignore_dist pp))
           (\<lambda>stuck_vehicle_detect_area.
              Inr (stuck_loop L pp stuck_vehicle_detect_area objects
                     (dbg\<lparr>dbg_stuck_vehicle_detect_area := stuck_vehicle_detect_area\<rparr>))))"

section \<open>Collision detection\<close>

text \<open>\<^verbatim>\<open>cutPredictPathWithDuration\<close>; \<open>current_time\<close> is the reading \<^verbatim>\<open>clock_->now()\<close>.\<close>

definition cutPredictPathWithDuration ::
  "Time \<Rightarrow> DynamicObject list \<Rightarrow> real \<Rightarrow> DynamicObject list" where
  "cutPredictPathWithDuration current_time objects time_thr =
     map (\<lambda>object. object\<lparr>predicted_paths :=
            map (\<lambda>predicted_path. predicted_path\<lparr>path_poses :=
                   filter (\<lambda>predicted_pose.
                             seconds (header_stamp predicted_pose - current_time) < time_thr)
                          (path_poses predicted_path)\<rparr>)
                (predicted_paths object)\<rparr>)
         objects"

text \<open>
  The inner loop of the extraction of the target objects, over the detection areas: the
  result tells whether the object is pushed to the target objects.
\<close>

fun detection_area_loop ::
  "Lib \<Rightarrow> PlannerData \<Rightarrow> PlannerParam \<Rightarrow> int list \<Rightarrow> DynamicObject \<Rightarrow> Polygon2d list \<Rightarrow>
     bool result" where
  "detection_area_loop L pd pp detection_area_lanelet_ids object [] = Inr False"
| "detection_area_loop L pd pp detection_area_lanelet_ids object (detection_area # detection_areas) =
     (let obj_point = to_bg2d (position (state_pose object));
          dist_to_detection_area = bg_distance L obj_point detection_area
      in if dist_to_detection_area > detection_area_margin pp
         then detection_area_loop L pd pp detection_area_lanelet_ids object detection_areas
         else
           (let object_direction = getObjectPoseWithVelocityDirection L object
            in bind_result
                 (checkAngleForTargetLanelets L pd pp object_direction detection_area_lanelet_ids)
                 (\<lambda>ok. if ok then Inr True
                        else detection_area_loop L pd pp detection_area_lanelet_ids object
                               detection_areas)))"

text \<open>The extraction of the target objects: the first loop of \<^verbatim>\<open>checkCollision\<close>.\<close>

fun extract_target_objects ::
  "Lib \<Rightarrow> PlannerData \<Rightarrow> PlannerParam \<Rightarrow> Polygon2d \<Rightarrow> Polygon2d list \<Rightarrow> int list \<Rightarrow>
     DynamicObject list \<Rightarrow> DynamicObject list result" where
  "extract_target_objects L pd pp ego_poly detection_areas detection_area_lanelet_ids [] = Inr []"
| "extract_target_objects L pd pp ego_poly detection_areas detection_area_lanelet_ids
     (object # objects) =
     (if \<not> isTargetCollisionVehicleType object
      then extract_target_objects L pd pp ego_poly detection_areas detection_area_lanelet_ids objects
      else
        (let object_pose = state_pose object;
             is_in_ego_lane = bg_within L (to_bg2d (position object_pose)) ego_poly
         in if is_in_ego_lane
            then extract_target_objects L pd pp ego_poly detection_areas detection_area_lanelet_ids
                   objects
            else
              bind_result
                (detection_area_loop L pd pp detection_area_lanelet_ids object detection_areas)
                (\<lambda>keep.
                   bind_result
                     (extract_target_objects L pd pp ego_poly detection_areas
                        detection_area_lanelet_ids objects)
                     (\<lambda>target_objects.
                        Inr (if keep then object # target_objects else target_objects)))))"

text \<open>
  \<^verbatim>\<open>std::adjacent_find\<close>: the index of the first element of the first adjacent pair that
  satisfies the predicate, \<open>None\<close> for the end of the range.
\<close>

fun adjacent_find :: "('a \<Rightarrow> 'a \<Rightarrow> bool) \<Rightarrow> 'a list \<Rightarrow> nat option" where
  "adjacent_find P (a # b # xs) =
     (if P a b then Some 0 else map_option Suc (adjacent_find P (b # xs)))"
| "adjacent_find P xs = None"

text \<open>
  \<^verbatim>\<open>std::lower_bound\<close> on the profile with the comparison of the elapsed times: the
  index of the first pair whose time is not below the value, the length of the array
  when there is none. The times of a profile do not decrease, which is what the
  function requires of its range.
\<close>

definition lower_bound :: "TimeDistanceArray \<Rightarrow> real \<Rightarrow> nat" where
  "lower_bound time_distance_array b = length (takeWhile (\<lambda>a. fst a < b) time_distance_array)"

text \<open>
  The loop over the predicted poses from \<^verbatim>\<open>first_itr\<close> on: every footprint is recorded
  in the debug data and tested against the trimmed polygon; the result tells whether
  one intersects, where the loop breaks.
\<close>

fun footprint_loop ::
  "Lib \<Rightarrow> Polygon2d \<Rightarrow> DynamicObject \<Rightarrow> PredictedPose list \<Rightarrow> DebugData \<Rightarrow> bool \<times> DebugData" where
  "footprint_loop L polygon object [] dbg = (False, dbg)"
| "footprint_loop L polygon object (p # ps) dbg =
     (let footprint_polygon = toPredictedFootprintPolygon L object p;
          dbg' = dbg\<lparr>dbg_candidate_collision_object_polygons :=
                   dbg_candidate_collision_object_polygons dbg @ [footprint_polygon]\<rparr>
      in if bg_intersects L polygon footprint_polygon then (True, dbg')
         else footprint_loop L polygon object ps dbg')"

text \<open>
  The local values of \<^verbatim>\<open>checkCollision\<close> that its second loop reads: the ego polygon,
  the profile, the ego lane with the next lane, the arc length of the closest waypoint,
  the distance until the intersection, and the distance from the base link to the
  front.
\<close>

record CollisionFrame =
  fr_ego_poly :: Polygon2d
  fr_time_distance_array :: TimeDistanceArray
  fr_ego_lane_with_next_lane :: "Lanelet list"
  fr_closest_arc_length :: real
  fr_distance_until_intersection :: real
  fr_base_link2front :: real

definition pose_point :: "PredictedPose \<Rightarrow> Point2d" where
  "pose_point p = to_bg2d (position (pose_pose p))"

text \<open>
  The body of the loop over the predicted paths of one object, for one predicted path.
  The state is the flag \<^verbatim>\<open>collision_detected\<close>, declared before the loop over the
  objects, and the debug data; the result also tells whether the loop breaks. In the
  order of the source: the confidence cut-off; the test of the whole path against the ego
  polygon; \<^verbatim>\<open>first_itr\<close> and \<^verbatim>\<open>last_itr\<close>; the enter time (which reads \<^verbatim>\<open>*first_itr\<close>)
  and the start of the window, with its \<^verbatim>\<open>continue\<close>; the exit time (which reads
  \<^verbatim>\<open>*last_itr\<close>) and the end of the window; the two arc lengths and the trimmed polygon,
  closed with its first point; the loop over the poses from \<^verbatim>\<open>first_itr\<close> to
  \<^verbatim>\<open>last_itr.base()\<close>, which runs off the path when that position lies before
  \<^verbatim>\<open>first_itr\<close> and no footprint intersects; and the final test of the flag.
\<close>

definition check_predicted_path ::
  "Lib \<Rightarrow> PlannerParam \<Rightarrow> CollisionFrame \<Rightarrow> DynamicObject \<Rightarrow> PredictedPath \<Rightarrow>
     bool \<times> DebugData \<Rightarrow> (bool \<times> bool \<times> DebugData) result" where
  "check_predicted_path L pp fr object predicted_path st =
     (let collision_detected = fst st; dbg = snd st
      in if confidence predicted_path < min_predicted_path_confidence pp
         then Inr (False, collision_detected, dbg)
         else
        (let poses = path_poses predicted_path;
             has_collision = bg_intersects_linestring L (fr_ego_poly fr) (map pose_point poses);
             crosses = (\<lambda>a b. bg_intersects_linestring L (fr_ego_poly fr) [pose_point a, pose_point b])
         in if \<not> has_collision
            then Inr (False, collision_detected, dbg)
            else
              (case adjacent_find crosses poses of
                 None \<Rightarrow> Inl invalid_iterator
               | Some first_idx \<Rightarrow>
                   (let ref_object_enter_time =
                          seconds (header_stamp (poses ! first_idx) - header_stamp (hd poses));
                        start_idx =
                          (if ref_object_enter_time - collision_start_margin_time pp > 0
                           then lower_bound (fr_time_distance_array fr)
                                  (ref_object_enter_time - collision_start_margin_time pp)
                           else 0)
                    in if start_idx = length (fr_time_distance_array fr)
                       then Inr (False, collision_detected, dbg)
                       else
                         (case adjacent_find crosses (rev poses) of
                            None \<Rightarrow> Inl invalid_iterator
                          | Some k \<Rightarrow>
                              (let last_idx = length poses - 1 - k;
                                   base = length poses - k;
                                   ref_object_exit_time =
                                     seconds (header_stamp (poses ! last_idx) - header_stamp (hd poses));
                                   found_idx = lower_bound (fr_time_distance_array fr)
                                     (ref_object_exit_time + collision_end_margin_time pp);
                                   end_idx =
                                     (if found_idx = length (fr_time_distance_array fr)
                                      then length (fr_time_distance_array fr) - 1 else found_idx);
                                   start_arc_length = max 0
                                     (fr_closest_arc_length fr +
                                      snd (fr_time_distance_array fr ! start_idx) -
                                      fr_distance_until_intersection fr);
                                   end_arc_length = max 0
                                     (fr_closest_arc_length fr +
                                      snd (fr_time_distance_array fr ! end_idx) +
                                      fr_base_link2front fr - fr_distance_until_intersection fr);
                                   trimmed_ego_polygon =
                                     getPolygonFromArcLength L (fr_ego_lane_with_next_lane fr)
                                       start_arc_length end_arc_length
                               in bind_result (front trimmed_ego_polygon) (\<lambda>first_point.
                                    let polygon = trimmed_ego_polygon @ [first_point];
                                        dbg1 = dbg\<lparr>dbg_candidate_collision_ego_lane_polygon := polygon\<rparr>;
                                        in_range = (first_idx \<le> base);
                                        visited =
                                          (if in_range then take (base - first_idx) (drop first_idx poses)
                                           else drop first_idx poses);
                                        hit = fst (footprint_loop L polygon object visited dbg1);
                                        dbg2 = snd (footprint_loop L polygon object visited dbg1)
                                    in if \<not> hit \<and> \<not> in_range then Inl invalid_iterator
                                       else if collision_detected \<or> hit
                                       then Inr (True, True, dbg2\<lparr>dbg_conflicting_targets :=
                                                   dbg_conflicting_targets dbg2 @ [object]\<rparr>)
                                       else Inr (False, False, dbg2))))))))"

text \<open>The loop over the predicted paths of one object.\<close>

fun predicted_path_loop ::
  "Lib \<Rightarrow> PlannerParam \<Rightarrow> CollisionFrame \<Rightarrow> DynamicObject \<Rightarrow> PredictedPath list \<Rightarrow>
     bool \<times> DebugData \<Rightarrow> (bool \<times> DebugData) result" where
  "predicted_path_loop L pp fr object [] st = Inr st"
| "predicted_path_loop L pp fr object (predicted_path # rest) st =
     bind_result (check_predicted_path L pp fr object predicted_path st) (\<lambda>r.
       if fst r then Inr (snd r) else predicted_path_loop L pp fr object rest (snd r))"

text \<open>The loop over the target objects: the second loop of \<^verbatim>\<open>checkCollision\<close>.\<close>

fun objects_loop ::
  "Lib \<Rightarrow> PlannerParam \<Rightarrow> CollisionFrame \<Rightarrow> DynamicObject list \<Rightarrow> bool \<times> DebugData \<Rightarrow>
     (bool \<times> DebugData) result" where
  "objects_loop L pp fr [] st = Inr st"
| "objects_loop L pp fr (object # objects) st =
     bind_result (predicted_path_loop L pp fr object (predicted_paths object) st)
       (\<lambda>st'. objects_loop L pp fr objects st')"

text \<open>
  The member \<^verbatim>\<open>lane_id_\<close> is an \<^verbatim>\<open>int64_t\<close>, the parameter \<^verbatim>\<open>objective_lane_id\<close> of
  \<^verbatim>\<open>calcIntersectionPassingTime\<close> an \<^verbatim>\<open>int\<close> of 32 bits: the call converts the
  identifier to the value of that range that is equal to it modulo \<open>2 ^ 32\<close>.
\<close>

definition to_int32 :: "int \<Rightarrow> int" where
  "to_int32 x = (x + 2147483648) mod 4294967296 - 2147483648"

text \<open>
  \<^verbatim>\<open>checkCollision\<close>; \<open>current_time\<close> is the clock reading of
  \<^verbatim>\<open>cutPredictPathWithDuration\<close>. The profile always holds the pair \<open>(0, 0)\<close>, so
  \<^verbatim>\<open>back()\<close> is \<open>last\<close>.
\<close>

definition checkCollision ::
  "Lib \<Rightarrow> PlannerData \<Rightarrow> PlannerParam \<Rightarrow> Time \<Rightarrow> int \<Rightarrow> PathWithLaneId \<Rightarrow> Polygon2d list \<Rightarrow>
     int list \<Rightarrow> DynamicObject list \<Rightarrow> int \<Rightarrow> DebugData \<Rightarrow> (bool \<times> DebugData) result" where
  "checkCollision L pd pp current_time lane path detection_areas detection_area_lanelet_ids
     objects closest_idx dbg =
     bind_result
       (generateEgoIntersectionLanePolygon L (lanelet_map pd) lane path closest_idx closest_idx 0 0)
       (\<lambda>ego_poly'.
     bind_result
       (extract_target_objects L pd pp ego_poly' detection_areas detection_area_lanelet_ids objects)
       (\<lambda>target_objects.
     bind_result (calcIntersectionPassingTime pd pp path closest_idx (to_int32 lane))
       (\<lambda>time_distance_array'.
     let passing_time = fst (last time_distance_array');
         cut_objects = cutPredictPathWithDuration current_time target_objects passing_time
     in
     bind_result (getEgoLaneWithNextLane (lanelet_map pd) lane path) (\<lambda>ego_lanes.
     bind_result (at_idx path closest_idx) (\<lambda>closest_point.
     bind_result
       (calcDistanceUntilIntersectionLanelet L (lanelet_map pd) lane path closest_idx)
       (\<lambda>distance.
          objects_loop L pp
            \<lparr>fr_ego_poly = ego_poly', fr_time_distance_array = time_distance_array',
             fr_ego_lane_with_next_lane = ego_lanes,
             fr_closest_arc_length = getArcCoordinates_length L ego_lanes (point_pose closest_point),
             fr_distance_until_intersection = distance,
             fr_base_link2front = max_longitudinal_offset_m pd\<rparr>
            cut_objects (False, dbg\<lparr>dbg_ego_lane_polygon := ego_poly'\<rparr>)))))))"

section \<open>The module and its decision cycle\<close>

text \<open>
  The constructor. \<open>sm0\<close> is the state machine as its default constructor, which the
  header declares, leaves it; the constructor sets its margin time.
\<close>

definition IntersectionModule_init ::
  "int \<Rightarrow> PlannerData \<Rightarrow> PlannerParam \<Rightarrow> StateMachine \<Rightarrow> IntersectionModule result" where
  "IntersectionModule_init lane_id planner_data planner_param sm0 =
     bind_result (laneletLayer_get (lanelet_map planner_data) lane_id) (\<lambda>assigned_lanelet.
       Inr \<lparr>m_lane_id = lane_id,
            m_turn_direction = attributeOr assigned_lanelet ''turn_direction'' ''else'',
            m_has_traffic_light = (\<not> (regulatoryElementsAs_TrafficLight assigned_lanelet = [])),
            m_planner_param = planner_param,
            m_state_machine = setMarginTime (state_transit_margin_time planner_param) sm0,
            m_debug_data = DebugData_init\<rparr>)"

text \<open>\<^verbatim>\<open>isTargetExternalInputStatus\<close>; \<open>now\<close> is the reading \<^verbatim>\<open>clock_->now()\<close> of the call.\<close>

definition isTargetExternalInputStatus ::
  "PlannerData \<Rightarrow> PlannerParam \<Rightarrow> Time \<Rightarrow> IntersectionStatus \<Rightarrow> bool" where
  "isTargetExternalInputStatus pd pp now target_status =
     (case external_intersection_status_input pd of
        None \<Rightarrow> False
      | Some input \<Rightarrow>
          ext_status input = target_status \<and>
          seconds (now - ext_header_stamp input) < external_input_timeout pp)"

text \<open>
  The requested state of a cycle: \<^verbatim>\<open>is_entry_prohibited\<close> as the detection results and
  the two external signals give it, and the state passed to the state machine.
\<close>

definition is_entry_prohibited :: "bool \<Rightarrow> bool \<Rightarrow> bool \<Rightarrow> bool \<Rightarrow> bool" where
  "is_entry_prohibited has_collision is_stuck external_go external_stop =
     (if external_go then False
      else if external_stop then True
      else (has_collision \<or> is_stuck))"

definition requested_state :: "bool \<Rightarrow> bool \<Rightarrow> bool \<Rightarrow> bool \<Rightarrow> State" where
  "requested_state has_collision is_stuck external_go external_stop =
     (if is_entry_prohibited has_collision is_stuck external_go external_stop then STOP else GO)"

text \<open>
  Modelled from the spec: \<^verbatim>\<open>util::setVelocityFrom\<close> is a utility of the intersection
  module that is not part of these sources. It overwrites the velocity of the waypoints
  at and after the index.
\<close>

definition setVelocityFrom :: "int \<Rightarrow> real \<Rightarrow> PathWithLaneId \<Rightarrow> PathWithLaneId" where
  "setVelocityFrom idx vel path =
     map (\<lambda>(i, p). if idx \<le> int i then p\<lparr>point_twist_linear_x := vel\<rparr> else p)
         (enumerate 0 path)"

text \<open>
  Modelled from the spec: \<^verbatim>\<open>planning_utils::toRosPoints\<close> is a utility of the planner
  that is not part of the module. It gives the points of the objects for the stop
  factor.
\<close>

definition toRosPoints :: "DynamicObject list \<Rightarrow> (real \<times> real \<times> real) list" where
  "toRosPoints objects = map (\<lambda>object. position (state_pose object)) objects"

text \<open>
  The cycle up to the closest index: the areas, the stop line and the pass-judge line,
  and the closest index. Either the cycle returns, with the value it returns and the
  path as it is then, or it goes on with the path, the stop-line index, the
  pass-judge-line index and the closest index. \<^verbatim>\<open>generateStopLine\<close> receives the path
  of the cycle (\<^verbatim>\<open>path, *path\<close>), so from this call on the path is the one it leaves;
  \<^verbatim>\<open>input_path\<close> is the copy taken at the start of the cycle, which
  \<^verbatim>\<open>calcClosestIndex\<close> reads.
\<close>

datatype Prelude = Return bool PathWithLaneId | Continue PathWithLaneId int int int

definition locate_lines ::
  "Lib \<Rightarrow> PlannerData \<Rightarrow> IntersectionModule \<Rightarrow> PathWithLaneId \<Rightarrow> Prelude" where
  "locate_lines L pd m path =
     (let input_path = path;
          areas = objective_areas L (lanelet_map pd) (routing_graph pd) (m_lane_id m)
                    (m_planner_param m);
          conflicting_areas = fst areas;
          detection_areas = fst (snd areas)
      in if detection_areas = [] then Return True path
         else
           (case generateStopLine L (m_lane_id m) conflicting_areas pd (m_planner_param m) path of
              (generated, path', stop_line_idx, pass_judge_line_idx, first_idx_inside_lane) \<Rightarrow>
                if \<not> generated then Return False path'
                else if stop_line_idx \<le> 0 \<or> pass_judge_line_idx \<le> 0 then Return True path'
                else
                  (case calcClosestIndex L input_path (current_pose pd) of
                     None \<Rightarrow> Return False path'
                   | Some closest_idx \<Rightarrow>
                       Continue path' stop_line_idx pass_judge_line_idx closest_idx)))"

text \<open>
  \<^verbatim>\<open>is_over_pass_judge_line\<close>: the closest index lies after the pass-judge line, or on
  it with the vehicle ahead of its pose.
\<close>

definition is_over_pass_judge_line ::
  "Lib \<Rightarrow> PlannerData \<Rightarrow> PathWithLaneId \<Rightarrow> int \<Rightarrow> int \<Rightarrow> bool result" where
  "is_over_pass_judge_line L pd path closest_idx pass_judge_line_idx =
     (if closest_idx = pass_judge_line_idx
      then bind_result (at_idx path pass_judge_line_idx) (\<lambda>pass_judge_line.
             Inr (isAheadOf L (current_pose pd) (point_pose pass_judge_line)))
      else Inr (closest_idx > pass_judge_line_idx))"

text \<open>
  The cycle up to the test ``over the pass judge line, no plan needed'', which returns
  when the current state is GO, the vehicle is over the line and no external stop is
  active.
\<close>

definition plan_prelude ::
  "Lib \<Rightarrow> PlannerData \<Rightarrow> CycleClock \<Rightarrow> IntersectionModule \<Rightarrow> PathWithLaneId \<Rightarrow> Prelude result" where
  "plan_prelude L pd clk m path =
     (let external_stop =
            isTargetExternalInputStatus pd (m_planner_param m) (now_external_stop clk)
              IntersectionStatus_STOP;
          current_state = getState (m_state_machine m)
      in case locate_lines L pd m path of
           Return value path' \<Rightarrow> Inr (Return value path')
         | Continue path' stop_line_idx pass_judge_line_idx closest_idx \<Rightarrow>
             bind_result (is_over_pass_judge_line L pd path' closest_idx pass_judge_line_idx)
               (\<lambda>over. if current_state = GO \<and> over \<and> \<not> external_stop
                       then Inr (Return True path')
                       else Inr (Continue path' stop_line_idx pass_judge_line_idx closest_idx)))"

text \<open>
  The velocity written when the state is STOP, and the stop factor: the block
  ``set stop speed'' of the cycle. The result is the returned value, the path, the stop
  reason and the module.
\<close>

definition set_stop_speed ::
  "IntersectionModule \<Rightarrow> bool \<Rightarrow> int \<Rightarrow> int \<Rightarrow> PathWithLaneId \<Rightarrow> StopReason \<Rightarrow>
     (bool \<times> PathWithLaneId \<times> StopReason \<times> IntersectionModule) result" where
  "set_stop_speed m is_stuck stop_line_idx pass_judge_line_idx path stop_reason =
     (if getState (m_state_machine m) = STOP
      then
        (let stop_vel = 0;
             decel_vel = decel_velocity (m_planner_param m);
             is_stop_required =
               (is_stuck \<or> \<not> m_has_traffic_light m \<or> m_turn_direction m \<noteq> ''straight'');
             v = (if is_stop_required then stop_vel else decel_vel);
             path' = setVelocityFrom stop_line_idx v path
         in if is_stop_required
            then
              bind_result (at_idx path' stop_line_idx) (\<lambda>stop_point.
              bind_result (at_idx path' pass_judge_line_idx) (\<lambda>judge_point.
                let dbg = (m_debug_data m)
                      \<lparr>dbg_stop_required := True,
                       dbg_stop_point_pose := Some (point_pose stop_point),
                       dbg_judge_point_pose := Some (point_pose judge_point)\<rparr>;
                    stop_factor =
                      \<lparr>stop_pose = point_pose stop_point,
                       stop_factor_points =
                         toRosPoints (dbg_conflicting_targets dbg) @
                         toRosPoints (dbg_stuck_targets dbg)\<rparr>
                in Inr (True, path', stop_reason @ [stop_factor], m\<lparr>m_debug_data := dbg\<rparr>)))
            else
              Inr (True, path', stop_reason,
                   m\<lparr>m_debug_data := (m_debug_data m)\<lparr>dbg_stop_required := False\<rparr>\<rparr>))
      else Inr (True, path, stop_reason, m))"

text \<open>
  The two detections of a cycle, in their order: \<^verbatim>\<open>checkCollision\<close>, then
  \<^verbatim>\<open>checkStuckVehicleInIntersection\<close>. The result is \<^verbatim>\<open>has_collision\<close>, \<^verbatim>\<open>is_stuck\<close> and
  the debug data.
\<close>

definition detect ::
  "Lib \<Rightarrow> PlannerData \<Rightarrow> CycleClock \<Rightarrow> IntersectionModule \<Rightarrow> PathWithLaneId \<Rightarrow> int \<Rightarrow> int \<Rightarrow>
     DebugData \<Rightarrow> (bool \<times> bool \<times> DebugData) result" where
  "detect L pd clk m path stop_line_idx closest_idx dbg =
     (let areas = objective_areas L (lanelet_map pd) (routing_graph pd) (m_lane_id m)
                    (m_planner_param m);
          detection_areas = fst (snd areas);
          detection_area_lanelet_ids = snd (snd areas);
          objects_ptr = dynamic_objects pd
      in bind_result
           (checkCollision L pd (m_planner_param m) (now_cut_predict_path clk) (m_lane_id m) path
              detection_areas detection_area_lanelet_ids objects_ptr closest_idx dbg)
           (\<lambda>collision.
              bind_result
                (checkStuckVehicleInIntersection L pd (m_planner_param m) (m_lane_id m) path
                   closest_idx stop_line_idx objects_ptr (snd collision))
                (\<lambda>stuck. Inr (fst collision, fst stuck, snd stuck))))"

text \<open>
  The debug data of a cycle before the detections: the initial value
  (\<^verbatim>\<open>debug_data_ = DebugData()\<close>) with the raw path and the detection areas.
\<close>

definition fresh_debug_data ::
  "Lib \<Rightarrow> PlannerData \<Rightarrow> IntersectionModule \<Rightarrow> PathWithLaneId \<Rightarrow> DebugData" where
  "fresh_debug_data L pd m path =
     DebugData_init
       \<lparr>dbg_path_raw := path,
        dbg_detection_area :=
          fst (snd (objective_areas L (lanelet_map pd) (routing_graph pd) (m_lane_id m)
                      (m_planner_param m)))\<rparr>"

text \<open>
  \<^verbatim>\<open>modifyPathVelocity\<close>: the result is the returned value, the path, the stop reason
  and the module after the cycle. The stop reason starts empty
  (\<^verbatim>\<open>initializeStopReason\<close>). A cycle that ends in a failure gives no result.
\<close>

definition modifyPathVelocity ::
  "Lib \<Rightarrow> PlannerData \<Rightarrow> CycleClock \<Rightarrow> IntersectionModule \<Rightarrow> PathWithLaneId \<Rightarrow>
     (bool \<times> PathWithLaneId \<times> StopReason \<times> IntersectionModule) result" where
  "modifyPathVelocity L pd clk m path =
     (let external_go =
            isTargetExternalInputStatus pd (m_planner_param m) (now_external_go clk)
              IntersectionStatus_GO;
          external_stop =
            isTargetExternalInputStatus pd (m_planner_param m) (now_external_stop clk)
              IntersectionStatus_STOP;
          stop_reason = [];
          dbg = fresh_debug_data L pd m path;
          m0 = m\<lparr>m_debug_data := dbg\<rparr>
      in bind_result (plan_prelude L pd clk m path) (\<lambda>prelude.
           case prelude of
             Return value path' \<Rightarrow> Inr (value, path', stop_reason, m0)
           | Continue path' stop_line_idx pass_judge_line_idx closest_idx \<Rightarrow>
               bind_result (detect L pd clk m path' stop_line_idx closest_idx dbg) (\<lambda>d.
                 let has_collision = fst d;
                     is_stuck = fst (snd d);
                     state_machine = setStateWithMarginTime
                       (requested_state has_collision is_stuck external_go external_stop)
                       (now_state_machine clk) (m_state_machine m);
                     m1 = m\<lparr>m_state_machine := state_machine, m_debug_data := snd (snd d)\<rparr>
                 in set_stop_speed m1 is_stuck stop_line_idx pass_judge_line_idx path'
                      stop_reason)))"

section \<open>A crossing of two straight roads\<close>

text \<open>
  The theorems below hold for every choice of the library functions. To evaluate the
  module on concrete inputs, this section fixes a small world where these functions can
  be computed exactly: every polygon is a rectangle with sides parallel to the axes,
  every segment of a predicted path is parallel to an axis, the ego lanes run north along
  the y axis, and the objects head east, with the identity quaternion as orientation.
\<close>

fun lo :: "real list \<Rightarrow> real" where
  "lo [] = 0"
| "lo [a] = a"
| "lo (a # b # as) = min a (lo (b # as))"

fun hi :: "real list \<Rightarrow> real" where
  "hi [] = 0"
| "hi [a] = a"
| "hi (a # b # as) = max a (hi (b # as))"

text \<open>
  Two point sets with overlapping bounding boxes: for rectangles with sides parallel
  to the axes, and for a rectangle and a segment parallel to an axis, this is
  intersection.
\<close>

definition box_intersects :: "Point2d list \<Rightarrow> Point2d list \<Rightarrow> bool" where
  "box_intersects P Q =
     (P \<noteq> [] \<and> Q \<noteq> [] \<and>
      lo (map fst P) \<le> hi (map fst Q) \<and> lo (map fst Q) \<le> hi (map fst P) \<and>
      lo (map snd P) \<le> hi (map snd Q) \<and> lo (map snd Q) \<le> hi (map snd P))"

text \<open>A line string intersects a rectangle when one of its segments does.\<close>

fun box_intersects_linestring :: "Point2d list \<Rightarrow> Point2d list \<Rightarrow> bool" where
  "box_intersects_linestring P (a # b # rest) =
     (box_intersects P [a, b] \<or> box_intersects_linestring P (b # rest))"
| "box_intersects_linestring P rest = False"

definition box_within :: "Point2d \<Rightarrow> Point2d list \<Rightarrow> bool" where
  "box_within p P =
     (P \<noteq> [] \<and> lo (map fst P) < fst p \<and> fst p < hi (map fst P) \<and>
      lo (map snd P) < snd p \<and> snd p < hi (map snd P))"

definition box_distance :: "Point2d \<Rightarrow> Point2d list \<Rightarrow> real" where
  "box_distance p P =
     (let dx = max 0 (max (lo (map fst P) - fst p) (fst p - hi (map fst P)));
          dy = max 0 (max (lo (map snd P) - snd p) (snd p - hi (map snd P)))
      in sqrt (dx\<^sup>2 + dy\<^sup>2))"

text \<open>
  A lane that runs north between its left bound (west) and its right bound (east): the
  arc length of a pose is its distance north of the start of the first lane, the polygon
  between two arc lengths is the rectangle between them, and the centre line starts in
  the middle of the start.
\<close>

definition lane_start :: "Lanelet list \<Rightarrow> real" where
  "lane_start lanes = snd (hd (left_bound (hd lanes)))"

definition north_arc_length :: "Lanelet list \<Rightarrow> Pose \<Rightarrow> real" where
  "north_arc_length lanes pose = max 0 (snd (to_bg2d (position pose)) - lane_start lanes)"

definition north_lane_length :: "Lanelet \<Rightarrow> real" where
  "north_lane_length ll = snd (last (left_bound ll)) - snd (hd (left_bound ll))"

definition north_polygon :: "Lanelet list \<Rightarrow> real \<Rightarrow> real \<Rightarrow> Polygon2d" where
  "north_polygon lanes s e =
     (let west = fst (hd (left_bound (hd lanes)));
          east = fst (hd (right_bound (hd lanes)));
          y0 = lane_start lanes
      in [(west, y0 + s), (east, y0 + s), (east, y0 + e), (west, y0 + e)])"

definition north_centerline_front :: "Lanelet \<Rightarrow> Point2d" where
  "north_centerline_front ll =
     ((fst (hd (left_bound ll)) + fst (hd (right_bound ll))) / 2, snd (hd (left_bound ll)))"

text \<open>
  A pose is in a lanelet, up to a margin, when it is that close to the rectangle of its
  bounds; the angle of a lanelet is the direction of its left bound.
\<close>

definition box_isInLanelet :: "Pose \<Rightarrow> Lanelet \<Rightarrow> real \<Rightarrow> bool" where
  "box_isInLanelet pose ll margin =
     (box_distance (to_bg2d (position pose)) (left_bound ll @ right_bound ll) \<le> margin)"

definition bound_angle :: "Lanelet \<Rightarrow> real \<times> real \<times> real \<Rightarrow> real" where
  "bound_angle ll p =
     arctan ((snd (last (left_bound ll)) - snd (hd (left_bound ll))) /
             (fst (last (left_bound ll)) - fst (hd (left_bound ll))))"

text \<open>
  Quaternions that turn about the vertical axis, \<open>(0, 0, z, w)\<close> with \<open>w > 0\<close>: the yaw
  is twice the arc tangent of \<open>z / w\<close>, and negating \<open>z\<close> negates the yaw.
\<close>

definition planar_yaw :: "Quaternion \<Rightarrow> real" where
  "planar_yaw q = 2 * arctan (fst (snd (snd q)) / snd (snd (snd q)))"

definition planar_invert_yaw :: "Quaternion \<Rightarrow> Quaternion" where
  "planar_invert_yaw q = (fst q, fst (snd q), - fst (snd (snd q)), snd (snd (snd q)))"

definition normalize_radian :: "real \<Rightarrow> real" where
  "normalize_radian a = (if pi \<le> a then a - 2 * pi else if a < - pi then a + 2 * pi else a)"

text \<open>The footprint of an object that heads east: its length lies along the x axis.\<close>

definition east_footprint :: "Pose \<Rightarrow> real \<times> real \<times> real \<Rightarrow> Polygon2d" where
  "east_footprint pose dims =
     (let c = to_bg2d (position pose); l = fst dims / 2; w = fst (snd dims) / 2
      in [(fst c - l, snd c - w), (fst c + l, snd c - w), (fst c + l, snd c + w),
          (fst c - l, snd c + w)])"

text \<open>
  The index of the waypoint closest to a pose, in the north direction; a pose is ahead
  of another when it lies north of it; the arc length of a path between two indices is
  the distance north.
\<close>

fun closest_index :: "real \<Rightarrow> real list \<Rightarrow> nat" where
  "closest_index y (a # b # rest) =
     (if \<bar>a - y\<bar> \<le> \<bar>(b # rest) ! closest_index y (b # rest) - y\<bar> then 0
      else Suc (closest_index y (b # rest)))"
| "closest_index y rest = 0"

definition north_of :: "Pose \<Rightarrow> real" where
  "north_of pose = snd (to_bg2d (position pose))"

text \<open>
  The crossing. The ego lanes are 9, 10 and 11, four metres wide, from ten metres south
  of the crossing to twenty metres north; lane 10, from 0 to 10, is the lane of the
  module, straight and with a traffic light. Lane 20 runs east, between 4 and 8 metres
  north; its part west of the ego lanes is the detection area and its part on the ego
  lanes the conflicting area. The stop line is at the waypoint 2 and the pass-judge line
  at the waypoint 1 of a path of three waypoints or more, which \<open>generateStopLine\<close>
  leaves as it is; on a shorter path it returns false.
\<close>

definition north_lane :: "int \<Rightarrow> real \<Rightarrow> real \<Rightarrow> (string \<rightharpoonup> string) \<Rightarrow> RegulatoryElement list \<Rightarrow> Lanelet" where
  "north_lane i y0 y1 attrs regs =
     \<lparr>ll_id = i, attributes = attrs, regulatory_elements = regs,
      left_bound = [(- 2, y0), (- 2, y1)], right_bound = [(2, y0), (2, y1)]\<rparr>"

definition crossing_map :: LaneletMap where
  "crossing_map =
     \<lparr>laneletLayer =
        [9 \<mapsto> north_lane 9 (- 10) 0 Map.empty [],
         10 \<mapsto> north_lane 10 0 10 [''turn_direction'' \<mapsto> ''straight''] [TrafficLight],
         11 \<mapsto> north_lane 11 10 20 Map.empty [],
         20 \<mapsto> \<lparr>ll_id = 20, attributes = Map.empty, regulatory_elements = [],
                 left_bound = [(- 30, 8), (2, 8)], right_bound = [(- 30, 4), (2, 4)]\<rparr>]\<rparr>"

definition crossing_lib :: Lib where
  "crossing_lib =
     \<lparr>bg_within = box_within,
      bg_distance = box_distance,
      bg_intersects_linestring = box_intersects_linestring,
      bg_intersects = box_intersects,
      getArcCoordinates_length = north_arc_length,
      getLaneletLength3d = north_lane_length,
      getPolygonFromArcLength = north_polygon,
      isInLanelet = box_isInLanelet,
      getLaneletAngle = bound_angle,
      centerline2d_front = north_centerline_front,
      getYaw = planar_yaw,
      invert_yaw = planar_invert_yaw,
      normalizeRadian = normalize_radian,
      obj2polygon = east_footprint,
      objective_areas = (\<lambda>lanelet_map_ptr routing_graph_ptr lane pp.
        ([[(- 2, 4), (2, 4), (2, 8), (- 2, 8)]],
         [[(- 30, 4), (- 2, 4), (- 2, 8), (- 30, 8)]],
         [20])),
      generateStopLine = (\<lambda>lane conflicting_areas pd pp path.
        if length path < 3 then (False, path, - 1, - 1, - 1) else (True, path, 2, 1, 0)),
      calcClosestIndex = (\<lambda>path pose.
        if path = [] then None
        else Some (int (closest_index (north_of pose) (map (\<lambda>p. north_of (point_pose p)) path)))),
      isAheadOf = (\<lambda>a b. north_of b < north_of a),
      calcArcLengthFromPath = (\<lambda>path i j.
        north_of (point_pose (path ! j)) - north_of (point_pose (path ! i)))\<rparr>"

text \<open>Poses, waypoints and objects of the crossing.\<close>

definition pose_at :: "real \<Rightarrow> real \<Rightarrow> Pose" where
  "pose_at a b = \<lparr>position = (a, b, 0), orientation = (0, 0, 0, 1)\<rparr>"

definition waypoint :: "real \<Rightarrow> real \<Rightarrow> int \<Rightarrow> PathPointWithLaneId" where
  "waypoint b v lane = \<lparr>point_pose = pose_at 0 b, point_twist_linear_x = v, lane_ids = [lane]\<rparr>"

definition crossing_path :: PathWithLaneId where
  "crossing_path =
     [waypoint 0 10 10, waypoint 1 10 10, waypoint 2 10 10, waypoint 6 10 10, waypoint 12 10 11]"

text \<open>The parameters of the module, with a given margin time and decel velocity.\<close>

definition crossing_param :: "real \<Rightarrow> real \<Rightarrow> PlannerParam" where
  "crossing_param margin decel =
     \<lparr>state_transit_margin_time = margin, decel_velocity = decel, stuck_vehicle_detect_dist = 3,
      stuck_vehicle_ignore_dist = 0, stuck_vehicle_vel_thr = 4 / 5, intersection_velocity = 4,
      intersection_max_acc = 0, detection_area_length = 200, detection_area_margin = 1 / 2,
      detection_area_angle_thr = pi / 4, min_predicted_path_confidence = 1 / 20,
      external_input_timeout = 1, collision_start_margin_time = 5,
      collision_end_margin_time = 2\<rparr>"

text \<open>
  An object that heads east through the points \<open>xs\<close>, \<open>b\<close> metres north, with one
  predicted path of confidence one; the stamps of the poses are given with the points.
\<close>

definition east_path :: "real \<Rightarrow> (Time \<times> real) list \<Rightarrow> PredictedPath" where
  "east_path b xs =
     \<lparr>path_poses = map (\<lambda>x. \<lparr>header_stamp = fst x, pose_pose = pose_at (snd x) b\<rparr>) xs,
      confidence = 1\<rparr>"

definition east_object ::
  "nat \<Rightarrow> Semantic \<Rightarrow> real \<Rightarrow> real \<Rightarrow> real \<times> real \<times> real \<Rightarrow> (Time \<times> real) list \<Rightarrow> DynamicObject" where
  "east_object i kind b speed dims xs =
     \<lparr>object_id = i, semantic_type = kind, state_pose = pose_at (snd (hd xs)) b,
      orientation_reliable = True, state_twist_linear_x = speed,
      predicted_paths = [east_path b xs],
      shape_type = BOUNDING_BOX, shape_dimensions = dims, shape_footprint = []\<rparr>"

text \<open>
  The snapshot of the crossing: the vehicle \<open>b\<close> metres north at speed \<open>v\<close>, the objects
  and the external input. The clock reads 100 seconds in every reading of a cycle.
\<close>

definition crossing_data ::
  "real \<Rightarrow> real \<Rightarrow> DynamicObject list \<Rightarrow> ExternalInput option \<Rightarrow> PlannerData" where
  "crossing_data b v objects input =
     \<lparr>current_pose = pose_at 0 b, current_velocity = v, max_longitudinal_offset_m = 4,
      vehicle_length_m = 5, dynamic_objects = objects,
      external_intersection_status_input = input, lanelet_map = crossing_map,
      routing_graph = [(9, 10), (10, 11)]\<rparr>"

definition crossing_clock :: CycleClock where
  "crossing_clock =
     \<lparr>now_external_go = 100000000000, now_external_stop = 100000000000,
      now_cut_predict_path = 100000000000, now_state_machine = 100000000000\<rparr>"

text \<open>
  The module of lane 10 as its constructor builds it from the map, with a given state
  machine and parameters.
\<close>

definition crossing_module :: "PlannerParam \<Rightarrow> State \<Rightarrow> Time option \<Rightarrow> IntersectionModule" where
  "crossing_module pp state pending =
     \<lparr>m_lane_id = 10, m_turn_direction = ''straight'', m_has_traffic_light = True,
      m_planner_param = pp,
      m_state_machine =
        \<lparr>m_state = state, m_margin_time = state_transit_margin_time pp, m_start_time = pending\<rparr>,
      m_debug_data = DebugData_init\<rparr>"

text \<open>
  The car \<open>A\<close> crosses five metres north at four metres per second; the car \<open>B\<close> crosses
  seven and a half metres north at twelve metres per second. Their poses are stamped
  from a tenth of a second before the clock reading on.
\<close>

definition car_A :: DynamicObject where
  "car_A = east_object 1 CAR 5 4 (4, 2, 2)
     [(99900000000, - 6), (100900000000, - 3), (101900000000, 1), (102900000000, 5)]"

definition car_B :: DynamicObject where
  "car_B = east_object 2 CAR (15 / 2) 12 (4, 1, 2)
     [(99900000000, - 6), (100400000000, 0), (100900000000, 6)]"

text \<open>
  The car \<open>C\<close> crosses seven metres north; its predicted poses are two seconds and one
  second old.
\<close>

definition car_C :: DynamicObject where
  "car_C = east_object 3 CAR 7 5 (4, 2, 2) [(98000000000, - 6), (99000000000, - 1)]"

text \<open>
  The car \<open>D\<close> crosses like \<open>A\<close>, with poses stamped from the clock reading on. The
  bicycle and the truck stand on the ego lane, five metres north.
\<close>

definition car_D :: DynamicObject where
  "car_D = east_object 4 CAR 5 4 (4, 2, 2)
     [(100000000000, - 6), (101000000000, - 3), (102000000000, 1), (103000000000, 5)]"

definition standing :: "nat \<Rightarrow> Semantic \<Rightarrow> DynamicObject" where
  "standing i kind = east_object i kind 5 0 (2, 1, 2) [(99900000000, 0)]"

text \<open>
  The local values of \<^verbatim>\<open>checkCollision\<close> at the crossing, for a closest waypoint \<open>a\<close>
  metres north and a profile.
\<close>

definition crossing_frame :: "real \<Rightarrow> TimeDistanceArray \<Rightarrow> CollisionFrame" where
  "crossing_frame a profile =
     \<lparr>fr_ego_poly = [(- 2, a), (2, a), (2, 10), (- 2, 10), (- 2, a)],
      fr_time_distance_array = profile,
      fr_ego_lane_with_next_lane =
        [north_lane 10 0 10 [''turn_direction'' \<mapsto> ''straight''] [TrafficLight],
         north_lane 11 10 20 Map.empty []],
      fr_closest_arc_length = a, fr_distance_until_intersection = 0, fr_base_link2front = 4\<rparr>"

text \<open>
  What the examples observe of a result of \<^verbatim>\<open>checkCollision\<close> (the returned value,
  the identifiers of the conflicting targets and the number of footprints tested), of a
  stuck-vehicle check, of the two detections and of a cycle (the returned value, the
  velocities of the path and the state).
\<close>

definition collision_outcome :: "(bool \<times> DebugData) result \<Rightarrow> (bool \<times> nat list \<times> nat) result" where
  "collision_outcome r =
     map_sum id (\<lambda>c. (fst c, map object_id (dbg_conflicting_targets (snd c)),
                       length (dbg_candidate_collision_object_polygons (snd c)))) r"

definition stuck_outcome :: "(bool \<times> DebugData) result \<Rightarrow> (bool \<times> nat list) result" where
  "stuck_outcome r = map_sum id (\<lambda>c. (fst c, map object_id (dbg_stuck_targets (snd c)))) r"

definition detect_outcome :: "(bool \<times> bool \<times> DebugData) result \<Rightarrow> (bool \<times> bool) result" where
  "detect_outcome r = map_sum id (\<lambda>d. (fst d, fst (snd d))) r"

definition cycle_outcome ::
  "(bool \<times> PathWithLaneId \<times> StopReason \<times> IntersectionModule) result \<Rightarrow>
     (bool \<times> real list \<times> State) result" where
  "cycle_outcome r =
     map_sum id (\<lambda>c. (fst c, map point_twist_linear_x (fst (snd c)),
                       getState (m_state_machine (snd (snd (snd c)))))) r"

text \<open>The same snapshot evaluated again, by the module as the first cycle left it.\<close>

definition evaluate_again ::
  "Lib \<Rightarrow> PlannerData \<Rightarrow> CycleClock \<Rightarrow> IntersectionModule \<Rightarrow> PathWithLaneId \<Rightarrow>
     (bool \<times> PathWithLaneId \<times> StopReason \<times> IntersectionModule) result" where
  "evaluate_again L pd clk m path =
     bind_result (modifyPathVelocity L pd clk m path) (\<lambda>c.
       modifyPathVelocity L pd clk (snd (snd (snd c))) path)"

section \<open>Properties of the state machine\<close>

lemma run_requests_snoc:
  "run_requests sm (evs @ [(state, now)]) = setStateWithMarginTime state now (run_requests sm evs)"
  by (induction sm evs rule: run_requests.induct) simp_all

lemma m_margin_timesetStateWithMarginTime [simp]:
  "m_margin_time (setStateWithMarginTime state now sm) = m_margin_time sm"
  by (simp add: setStateWithMarginTime_def Let_def split: option.splits)

lemma m_margin_timerun_requests [simp]:
  "m_margin_time (run_requests sm evs) = m_margin_time sm"
  by (induction sm evs rule: run_requests.induct) simp_all

lemma pending_since_step:
  assumes "pending_since sm evs"
  shows "pending_since (setStateWithMarginTime state now sm) (evs @ [(state, now)])"
proof (cases "m_start_time (setStateWithMarginTime state now sm)")
  case None
  then show ?thesis by (simp add: pending_since_def)
next
  case (Some t)
  then have req: "state = GO" and cur: "m_state sm = STOP"
    by (auto simp: setStateWithMarginTime_def Let_def split: if_splits option.splits)
      (cases "m_state sm"; cases state; simp)+
  show ?thesis
  proof (cases "m_start_time sm")
    case None
    with Some req cur have "t = now" "m_state (setStateWithMarginTime state now sm) = STOP"
      by (auto simp: setStateWithMarginTime_def)
    moreover have "evs @ [(GO, now)] = evs @ (GO, now) # [] \<and> (\<forall>e \<in> set []. fst e = GO)"
      by simp
    ultimately show ?thesis
      using Some req unfolding pending_since_def by (simp only: option.case) blast
  next
    case old: (Some t0)
    with Some req cur have same: "setStateWithMarginTime state now sm = sm"
      by (auto simp: setStateWithMarginTime_def Let_def split: if_splits)
    with Some old have "t = t0" by simp
    with assms old obtain pre mid where
      "evs = pre @ (GO, t) # mid" "\<forall>e \<in> set mid. fst e = GO"
      by (auto simp: pending_since_def)
    then have "evs @ [(state, now)] = pre @ (GO, t) # (mid @ [(GO, now)]) \<and>
        (\<forall>e \<in> set (mid @ [(GO, now)]). fst e = GO)"
      using req by simp
    then show ?thesis
      using Some cur same unfolding pending_since_def by (simp only: option.case) blast
  qed
qed

lemma pending_since_run:
  assumes "m_start_time sm0 = None"
  shows "pending_since (run_requests sm0 evs) evs"
proof (induction evs rule: rev_induct)
  case Nil
  with assms show ?case by (simp add: pending_since_def)
next
  case (snoc e evs)
  obtain state now where e: "e = (state, now)" by (cases e)
  from snoc show ?case
    unfolding e run_requests_snoc by (rule pending_since_step)
qed

lemma stop_to_go_step:
  assumes "m_state sm = STOP" "m_state (setStateWithMarginTime state now sm) = GO"
  shows "state = GO \<and> (\<exists>t. m_start_time sm = Some t \<and> seconds (now - t) > m_margin_time sm)"
  using assms
  by (cases state) (auto simp: setStateWithMarginTime_def Let_def split: if_splits option.splits)

text \<open>
  Claim C1. Take an instance with no pending timestamp and any sequence of evaluations.
  If the machine is in STOP before an evaluation and in GO after it, then that evaluation
  requested GO, and the evaluations before it end with a run of GO requests whose first
  clock reading \<open>t\<close> lies strictly more than the margin time before the present one.
  A STOP request always clears the pending timestamp and leaves STOP; a request equal to
  the current state clears the timestamp and changes nothing else; after that a GO
  request in STOP records its own clock reading, so the elapsed time counts from zero, and
  the next GO request moves to GO exactly when the elapsed time exceeds the margin. A GO
  request in GO leaves GO.
\<close>

theorem debounce_stop_to_go:
  "m_start_time sm0 = None \<longrightarrow>
     (\<forall>evs state now.
        m_state (run_requests sm0 evs) = STOP \<and>
        m_state (run_requests sm0 (evs @ [(state, now)])) = GO \<longrightarrow>
          state = GO \<and>
          (\<exists>pre t mid. evs = pre @ (GO, t) # mid \<and> (\<forall>e \<in> set mid. fst e = GO) \<and>
             seconds (now - t) > m_margin_time sm0))
   \<and> (\<forall>sm now. m_start_time (setStateWithMarginTime STOP now sm) = None \<and>
          m_state (setStateWithMarginTime STOP now sm) = STOP)
   \<and> (\<forall>sm now. setStateWithMarginTime (m_state sm) now sm = sm\<lparr>m_start_time := None\<rparr>)
   \<and> (\<forall>sm now. m_state sm = STOP \<and> m_start_time sm = None \<longrightarrow>
          setStateWithMarginTime GO now sm = sm\<lparr>m_start_time := Some now\<rparr>)
   \<and> (\<forall>sm now now'. m_state sm = STOP \<and> m_start_time sm = Some now \<longrightarrow>
          (m_state (setStateWithMarginTime GO now' sm) = GO \<longleftrightarrow>
             seconds (now' - now) > m_margin_time sm))
   \<and> (\<forall>sm now. m_state sm = GO \<longrightarrow> m_state (setStateWithMarginTime GO now sm) = GO)"
proof (intro conjI impI allI)
  fix evs state now
  assume none: "m_start_time sm0 = None"
    and "m_state (run_requests sm0 evs) = STOP \<and>
        m_state (run_requests sm0 (evs @ [(state, now)])) = GO"
  then have stop: "m_state (run_requests sm0 evs) = STOP"
    and go: "m_state (setStateWithMarginTime state now (run_requests sm0 evs)) = GO"
    by (simp_all add: run_requests_snoc)
  from stop_to_go_step [OF stop go] obtain t where
    req: "state = GO" and t: "m_start_time (run_requests sm0 evs) = Some t"
    and late: "seconds (now - t) > m_margin_time sm0"
    by auto
  from pending_since_run [OF none, of evs] t obtain pre mid where
    "evs = pre @ (GO, t) # mid" "\<forall>e \<in> set mid. fst e = GO"
    by (auto simp: pending_since_def)
  with late show "state = GO" and "\<exists>pre t mid. evs = pre @ (GO, t) # mid \<and>
      (\<forall>e \<in> set mid. fst e = GO) \<and> seconds (now - t) > m_margin_time sm0"
    using req by blast+
qed (auto simp: setStateWithMarginTime_def Let_def)

text \<open>
  The theorem at a margin of two seconds: GO requested at time zero and again three
  seconds later.
\<close>

theorem debounce_stop_to_go_witness:
  "m_start_time \<lparr>m_state = STOP, m_margin_time = 2, m_start_time = None\<rparr> = None \<and>
   m_state (run_requests \<lparr>m_state = STOP, m_margin_time = 2, m_start_time = None\<rparr>
      [(GO, 0)]) = STOP \<and>
   m_state (run_requests \<lparr>m_state = STOP, m_margin_time = 2, m_start_time = None\<rparr>
      ([(GO, 0)] @ [(GO, 3000000000)])) = GO \<and>
   (\<exists>pre t mid. [(GO, 0)] = pre @ (GO, t) # mid \<and> (\<forall>e \<in> set mid. fst e = GO) \<and>
      seconds (3000000000 - t) > 2)"
proof -
  let ?sm0 = "\<lparr>m_state = STOP, m_margin_time = 2, m_start_time = None\<rparr>"
  have h0: "m_start_time ?sm0 = None" by simp
  have h1: "m_state (run_requests ?sm0 [(GO, 0)]) = STOP"
    by (simp add: setStateWithMarginTime_def)
  have h2: "m_state (run_requests ?sm0 ([(GO, 0)] @ [(GO, 3000000000)])) = GO"
    by (simp add: setStateWithMarginTime_def seconds_def)
  from debounce_stop_to_go [of ?sm0] h0 have
    "m_state (run_requests ?sm0 [(GO, 0)]) = STOP \<and>
     m_state (run_requests ?sm0 ([(GO, 0)] @ [(GO, 3000000000)])) = GO \<longrightarrow>
       (\<exists>pre t mid. [(GO, 0)] = pre @ (GO, t) # mid \<and> (\<forall>e \<in> set mid. fst e = GO) \<and>
          seconds (3000000000 - t) > m_margin_time ?sm0)"
    by blast
  with h1 h2 have "\<exists>pre t mid. [(GO, 0)] = pre @ (GO, t) # mid \<and>
      (\<forall>e \<in> set mid. fst e = GO) \<and> seconds (3000000000 - t) > 2"
    by simp
  with h0 h1 h2 show ?thesis by blast
qed
section \<open>External signals and the requested state\<close>

lemma external_status_single:
  "isTargetExternalInputStatus pd pp t1 IntersectionStatus_GO \<Longrightarrow>
   \<not> isTargetExternalInputStatus pd pp t2 IntersectionStatus_STOP"
  by (auto simp: isTargetExternalInputStatus_def split: option.splits)

text \<open>
  Claim C9. For every planner data, every parameters and every two clock readings, the
  external-go condition and the external-stop condition do not hold together: both read
  the status of the one external input record.
\<close>

theorem external_go_stop_exclusive:
  "\<not> (isTargetExternalInputStatus pd pp t1 IntersectionStatus_GO \<and>
      isTargetExternalInputStatus pd pp t2 IntersectionStatus_STOP)"
  using external_status_single by blast

lemma set_stop_speed_state_machine:
  "set_stop_speed m is_stuck s j path sr = Inr (ok, path', sr', m') \<Longrightarrow>
   m_state_machine m' = m_state_machine m"
  by (auto simp: set_stop_speed_def Let_def bind_result_def split: if_splits sum.splits)

lemma set_stop_speed_module:
  "set_stop_speed m is_stuck s j path sr = Inr (ok, path', sr', m') \<Longrightarrow>
   \<exists>d. m' = m\<lparr>m_debug_data := d\<rparr>"
  by (auto simp: set_stop_speed_def Let_def bind_result_def split: if_splits sum.splits
      intro: exI [of _ "m_debug_data m"])

lemma set_stop_speed_GO:
  "getState (m_state_machine m) = GO \<Longrightarrow>
   set_stop_speed m is_stuck s j path sr = Inr (True, path, sr, m)"
  by (simp add: set_stop_speed_def)

lemma modifyPathVelocity_continue:
  assumes "plan_prelude L pd clk m path = Inr (Continue p s j c)"
    and "detect L pd clk m p s c (fresh_debug_data L pd m path) = Inr (hc, st, dbg)"
  shows "modifyPathVelocity L pd clk m path =
     set_stop_speed
       (m\<lparr>m_state_machine :=
            setStateWithMarginTime
              (requested_state hc st
                 (isTargetExternalInputStatus pd (m_planner_param m) (now_external_go clk)
                    IntersectionStatus_GO)
                 (isTargetExternalInputStatus pd (m_planner_param m) (now_external_stop clk)
                    IntersectionStatus_STOP))
              (now_state_machine clk) (m_state_machine m),
          m_debug_data := dbg\<rparr>) st s j p []"
  using assms by (simp add: modifyPathVelocity_def Let_def bind_result_def)

lemma modifyPathVelocity_state_machine:
  assumes "plan_prelude L pd clk m path = Inr (Continue p s j c)"
    and "detect L pd clk m p s c (fresh_debug_data L pd m path) = Inr (hc, st, dbg)"
    and "modifyPathVelocity L pd clk m path = Inr (ok, path', sr, m')"
  shows "m_state_machine m' =
     setStateWithMarginTime
       (requested_state hc st
          (isTargetExternalInputStatus pd (m_planner_param m) (now_external_go clk)
             IntersectionStatus_GO)
          (isTargetExternalInputStatus pd (m_planner_param m) (now_external_stop clk)
             IntersectionStatus_STOP))
       (now_state_machine clk) (m_state_machine m)"
  using assms(3) set_stop_speed_state_machine
  unfolding modifyPathVelocity_continue [OF assms(1,2)] by fastforce


section \<open>The vehicle classes of the two detections\<close>

lemma stuck_loop_no_bicycle:
  "stuck_loop L pp area (filter (\<lambda>object. semantic_type object \<noteq> BICYCLE) objects) dbg =
   stuck_loop L pp area objects dbg"
  by (induction objects) (auto simp: isTargetStuckVehicleType_def Let_def)

text \<open>
  Claim C10. The collision filter accepts the classes CAR, BUS, TRUCK, MOTORBIKE and
  BICYCLE, the stuck filter the classes CAR, BUS, TRUCK and MOTORBIKE. So the
  stuck-vehicle check gives the same result, debug data included, with the bicycles
  removed from the objects, for every snapshot; and when every object is a bicycle, a
  check that returns is negative and records no stuck target.
\<close>

theorem bicycle_never_stuck:
  "(isTargetCollisionVehicleType object \<longleftrightarrow>
      semantic_type object \<in> {CAR, BUS, TRUCK, MOTORBIKE, BICYCLE}) \<and>
   (isTargetStuckVehicleType object \<longleftrightarrow>
      semantic_type object \<in> {CAR, BUS, TRUCK, MOTORBIKE}) \<and>
   checkStuckVehicleInIntersection L pd pp lane path closest_idx stop_idx
     (filter (\<lambda>object. semantic_type object \<noteq> BICYCLE) objects) dbg =
   checkStuckVehicleInIntersection L pd pp lane path closest_idx stop_idx objects dbg \<and>
   (list_all (\<lambda>object. semantic_type object = BICYCLE) objects \<and>
    checkStuckVehicleInIntersection L pd pp lane path closest_idx stop_idx objects dbg = Inr r \<longrightarrow>
      \<not> fst r \<and> dbg_stuck_targets (snd r) = dbg_stuck_targets dbg)"
proof (intro conjI impI)
  show "isTargetCollisionVehicleType object \<longleftrightarrow>
      semantic_type object \<in> {CAR, BUS, TRUCK, MOTORBIKE, BICYCLE}"
    by (auto simp: isTargetCollisionVehicleType_def)
  show "isTargetStuckVehicleType object \<longleftrightarrow>
      semantic_type object \<in> {CAR, BUS, TRUCK, MOTORBIKE}"
    by (auto simp: isTargetStuckVehicleType_def)
  show eq: "checkStuckVehicleInIntersection L pd pp lane path closest_idx stop_idx
     (filter (\<lambda>object. semantic_type object \<noteq> BICYCLE) objects) dbg =
   checkStuckVehicleInIntersection L pd pp lane path closest_idx stop_idx objects dbg"
    by (simp add: checkStuckVehicleInIntersection_def stuck_loop_no_bicycle)
  assume "list_all (\<lambda>object. semantic_type object = BICYCLE) objects \<and>
    checkStuckVehicleInIntersection L pd pp lane path closest_idx stop_idx objects dbg = Inr r"
  then have none: "filter (\<lambda>object. semantic_type object \<noteq> BICYCLE) objects = []"
    and res: "checkStuckVehicleInIntersection L pd pp lane path closest_idx stop_idx objects dbg
      = Inr r"
    by (simp_all add: filter_empty_conv list_all_iff)
  from res eq none
  have "checkStuckVehicleInIntersection L pd pp lane path closest_idx stop_idx [] dbg = Inr r"
    by simp
  then show "\<not> fst r" and "dbg_stuck_targets (snd r) = dbg_stuck_targets dbg"
    by (auto simp: checkStuckVehicleInIntersection_def bind_result_def Let_def
        split: sum.splits)
qed

section \<open>The time-distance profile\<close>

text \<open>
  The loop computes the pairs of the specification over the covered waypoints; its flag
  tells whether a tagged waypoint was seen.
\<close>

lemma passing_time_loop_spec:
  "passing_time_loop pp lane prev ps v s t found arr =
     (found \<or> (\<exists>p \<in> set ps. hasLaneId p lane),
      arr @ spec_pairs (intersection_max_acc pp) (intersection_velocity pp) prev
              (if found
               then takeWhile (\<lambda>p. lane \<in> set (lane_ids p)) ps @
                    take 1 (dropWhile (\<lambda>p. lane \<in> set (lane_ids p)) ps)
               else spec_covered lane ps) v t s)"
proof (induction ps arbitrary: prev v s t found arr)
  case Nil
  show ?case by (simp add: spec_covered_def)
next
  case (Cons p ps)
  show ?case
  proof (cases "hasLaneId p lane")
    case True
    then show ?thesis
      by (simp add: Cons.IH Let_def spec_covered_def hasLaneId_def)
  next
    case False
    then show ?thesis
      by (cases found) (simp_all add: Cons.IH Let_def spec_covered_def hasLaneId_def)
  qed
qed

text \<open>
  Claim C7. For a closest index that is not negative, the function returns, and when a
  waypoint after the closest index is tagged with the lane identifier, it returns the
  profile of the specification with the epsilon \<open>1 / 10\<close>: the pair \<open>(0, 0)\<close>, then one
  pair for each segment up to the first waypoint that is no longer tagged after the tag
  has been seen, each from the speeds \<open>min (sqrt (v\<^sup>2 + 2 a d)) v_cap\<close> and
  \<open>min ((v + v_next) / 2) v_cap\<close>, starting at the speed \<open>max (1 / 10) \<bar>v\<bar>\<close>. When no
  waypoint after the closest index is tagged, it returns the single pair.
\<close>

theorem calcIntersectionPassingTime_profile:
  assumes "0 \<le> closest_idx"
  shows "calcIntersectionPassingTime pd pp path closest_idx lane =
     Inr (if \<exists>p \<in> set (drop (nat closest_idx + 1) path). hasLaneId p lane
          then spec_profile (1 / 10) (intersection_max_acc pp) (intersection_velocity pp)
                 (current_velocity pd) lane (path ! nat closest_idx)
                 (drop (nat closest_idx + 1) path)
          else [(0, 0)])"
  using assms
  by (simp add: calcIntersectionPassingTime_def passing_time_loop_spec spec_profile_def Let_def)

section \<open>Clock readings\<close>

lemma seconds_less_zero [simp]: "seconds d < 0 \<longleftrightarrow> d < 0"
  by (simp add: seconds_def)

section \<open>The velocity written at the stop line\<close>

lemma length_setVelocityFrom [simp]: "length (setVelocityFrom idx v path) = length path"
  by (simp add: setVelocityFrom_def)

lemma nth_setVelocityFrom:
  "i < length path \<Longrightarrow>
   setVelocityFrom idx v path ! i =
     (if idx \<le> int i then (path ! i)\<lparr>point_twist_linear_x := v\<rparr> else path ! i)"
  by (simp add: setVelocityFrom_def nth_enumerate_eq)

lemma set_stop_speed_velocity:
  assumes "set_stop_speed m is_stuck s j path sr = Inr (ok, path', sr', m')"
    and "getState (m_state_machine m) = STOP"
  shows "path' = setVelocityFrom s
           (if is_stuck \<or> \<not> m_has_traffic_light m \<or> m_turn_direction m \<noteq> ''straight''
            then 0 else decel_velocity (m_planner_param m)) path \<and>
         dbg_stop_required (m_debug_data m') =
           (is_stuck \<or> \<not> m_has_traffic_light m \<or> m_turn_direction m \<noteq> ''straight'')"
  using assms
  by (auto simp: set_stop_speed_def Let_def bind_result_def split: if_splits sum.splits)

lemma init_fields:
  assumes "IntersectionModule_init lane pd0 pp sm0 = Inr m0"
    and "laneletLayer (lanelet_map pd0) lane = Some ll"
  shows "m_has_traffic_light m0 = (TrafficLight \<in> set (regulatory_elements ll))"
    and "m_turn_direction m0 = attributeOr ll ''turn_direction'' ''else''"
    and "m_planner_param m0 = pp" and "m_lane_id m0 = lane"
    and "m_margin_time (m_state_machine m0) = state_transit_margin_time pp"
  using assms
  by (auto simp: IntersectionModule_init_def bind_result_def laneletLayer_get_def
      regulatoryElementsAs_TrafficLight_def filter_empty_conv setMarginTime_def)

text \<open>
  Claim C3, as amended. Take the module as the constructor builds it for a lanelet of the
  map, in any later state, and a cycle that reaches the state machine and returns;
  \<open>p\<close> is the path as \<^verbatim>\<open>generateStopLine\<close> left it. If the state after the update is
  STOP, the returned path has the length of \<open>p\<close>, the velocity of every waypoint at or
  after the stop-line index is zero when a stuck vehicle was detected, or the lanelet has
  no traffic light, or its turn direction (``else'' when it has none) is not
  ``straight'', and is the decel velocity otherwise; the waypoints before the index keep
  their velocity. The flag \<^verbatim>\<open>stop_required\<close> of the debug data tells which of the two
  cases holds. (With a decel velocity of zero the written velocity is zero in both
  cases.)
\<close>

theorem stop_velocity_policy:
  assumes init: "IntersectionModule_init lane pd0 pp sm0 = Inr m0"
    and ll: "laneletLayer (lanelet_map pd0) lane = Some ll"
    and m: "m = m0\<lparr>m_state_machine := sm, m_debug_data := d\<rparr>"
    and pre: "plan_prelude L pd clk m path = Inr (Continue p s j c)"
    and det: "detect L pd clk m p s c (fresh_debug_data L pd m path) = Inr (hc, st, dbg)"
    and res: "modifyPathVelocity L pd clk m path = Inr (ok, path', sr, m')"
    and stop: "getState (m_state_machine m') = STOP"
  shows "length path' = length p \<and>
    (\<forall>i < length p.
       point_twist_linear_x (path' ! i) =
         (if s \<le> int i
          then (if st \<or> TrafficLight \<notin> set (regulatory_elements ll) \<or>
                   attributeOr ll ''turn_direction'' ''else'' \<noteq> ''straight''
                then 0 else decel_velocity pp)
          else point_twist_linear_x (p ! i))) \<and>
    dbg_stop_required (m_debug_data m') =
      (st \<or> TrafficLight \<notin> set (regulatory_elements ll) \<or>
       attributeOr ll ''turn_direction'' ''else'' \<noteq> ''straight'')"
proof -
  let ?m1 = "m\<lparr>m_state_machine :=
            setStateWithMarginTime
              (requested_state hc st
                 (isTargetExternalInputStatus pd (m_planner_param m) (now_external_go clk)
                    IntersectionStatus_GO)
                 (isTargetExternalInputStatus pd (m_planner_param m) (now_external_stop clk)
                    IntersectionStatus_STOP))
              (now_state_machine clk) (m_state_machine m),
          m_debug_data := dbg\<rparr>"
  from res have sss: "set_stop_speed ?m1 st s j p [] = Inr (ok, path', sr, m')"
    by (simp add: modifyPathVelocity_continue [OF pre det])
  from set_stop_speed_state_machine [OF sss] stop
  have "getState (m_state_machine ?m1) = STOP" by (simp add: getState_def)
  from set_stop_speed_velocity [OF sss this]
  have "path' = setVelocityFrom s
           (if st \<or> \<not> m_has_traffic_light m \<or> m_turn_direction m \<noteq> ''straight''
            then 0 else decel_velocity (m_planner_param m)) p"
    and "dbg_stop_required (m_debug_data m') =
           (st \<or> \<not> m_has_traffic_light m \<or> m_turn_direction m \<noteq> ''straight'')"
    by simp_all
  moreover have "m_has_traffic_light m = (TrafficLight \<in> set (regulatory_elements ll))"
    "m_turn_direction m = attributeOr ll ''turn_direction'' ''else''" "m_planner_param m = pp"
    using init_fields [OF init ll] m by simp_all
  ultimately show ?thesis
    by (auto simp: nth_setVelocityFrom)
qed

section \<open>The latched pass-through\<close>


section \<open>Evaluating a snapshot twice\<close>

lemma setStateWithMarginTime_idem:
  assumes "0 \<le> m_margin_time sm"
  shows "setStateWithMarginTime r now (setStateWithMarginTime r now sm) =
         setStateWithMarginTime r now sm"
  using assms
  by (cases r; cases "m_state sm")
    (auto simp: setStateWithMarginTime_def Let_def seconds_def split: option.splits)

lemma locate_lines_cong:
  assumes "m_lane_id m2 = m_lane_id m" "m_planner_param m2 = m_planner_param m"
  shows "locate_lines L pd m2 path = locate_lines L pd m path"
  using assms by (simp add: locate_lines_def Let_def)

lemma plan_prelude_cong:
  assumes "m_lane_id m2 = m_lane_id m" "m_planner_param m2 = m_planner_param m"
    "m_state (m_state_machine m2) = m_state (m_state_machine m)"
  shows "plan_prelude L pd clk m2 path = plan_prelude L pd clk m path"
  using assms locate_lines_cong [of m2 m L pd path]
  by (simp add: plan_prelude_def getState_def Let_def)

lemma plan_prelude_ContinueD:
  assumes "plan_prelude L pd clk m path = Inr (Continue p s j c)"
  shows "locate_lines L pd m path = Continue p s j c"
    and "\<exists>over. is_over_pass_judge_line L pd p c j = Inr over"
  using assms
  by (auto simp: plan_prelude_def Let_def bind_result_def
      split: Prelude.splits sum.splits if_splits)

lemma plan_prelude_other_state:
  assumes pre: "plan_prelude L pd clk m path = Inr (Continue p s j c)"
    and same: "m_lane_id m2 = m_lane_id m" "m_planner_param m2 = m_planner_param m"
  shows "plan_prelude L pd clk m2 path = Inr (Continue p s j c) \<or>
         (plan_prelude L pd clk m2 path = Inr (Return True p) \<and>
          getState (m_state_machine m2) = GO)"
proof -
  from plan_prelude_ContinueD [OF pre] obtain over where
    "locate_lines L pd m path = Continue p s j c"
    "is_over_pass_judge_line L pd p c j = Inr over"
    by blast
  then show ?thesis
    by (simp add: plan_prelude_def Let_def locate_lines_cong [OF same] bind_result_def)
qed

lemma detect_cong:
  assumes "m_lane_id m2 = m_lane_id m" "m_planner_param m2 = m_planner_param m"
  shows "detect L pd clk m2 path s c dbg = detect L pd clk m path s c dbg"
  using assms by (simp add: detect_def)

lemma fresh_debug_data_cong:
  assumes "m_lane_id m2 = m_lane_id m" "m_planner_param m2 = m_planner_param m"
  shows "fresh_debug_data L pd m2 path = fresh_debug_data L pd m path"
  using assms by (simp add: fresh_debug_data_def)

text \<open>
  Claim C8, as amended. If the margin time of the state machine is not negative and a
  cycle returns, then the cycle on the same snapshot (library functions, planner data,
  clock readings and input path), run by the module as the first cycle left it, returns
  too, with the same value, the same path and the same stop reason, and it leaves the
  state machine as the first cycle left it.
\<close>

theorem reevaluation_idempotent:
  assumes margin: "0 \<le> m_margin_time (m_state_machine m)"
    and first: "modifyPathVelocity L pd clk m path = Inr (ok, path', sr, m')"
  shows "\<exists>m''. modifyPathVelocity L pd clk m' path = Inr (ok, path', sr, m'') \<and>
           m_state_machine m'' = m_state_machine m'"
proof (cases "plan_prelude L pd clk m path")
  case (Inl e)
  with first show ?thesis by (simp add: modifyPathVelocity_def bind_result_def)
next
  case (Inr prelude)
  show ?thesis
  proof (cases prelude)
    case (Return b p)
    with Inr first have res: "ok = b" "path' = p" "sr = []"
      "m' = m\<lparr>m_debug_data := fresh_debug_data L pd m path\<rparr>"
      by (auto simp: modifyPathVelocity_def bind_result_def)
    then have "plan_prelude L pd clk m' path = Inr (Return b p)"
      using Inr Return plan_prelude_cong [of m' m L pd clk path] by simp
    then have "modifyPathVelocity L pd clk m' path =
        Inr (b, p, [], m'\<lparr>m_debug_data := fresh_debug_data L pd m' path\<rparr>)"
      by (simp add: modifyPathVelocity_def bind_result_def)
    with res show ?thesis by simp
  next
    case (Continue p s j c)
    with Inr have pre: "plan_prelude L pd clk m path = Inr (Continue p s j c)" by simp
    show ?thesis
    proof (cases "detect L pd clk m p s c (fresh_debug_data L pd m path)")
      case (Inl e)
      with pre first show ?thesis by (simp add: modifyPathVelocity_def bind_result_def)
    next
      case det: (Inr d)
      obtain hc st dbg where d: "d = (hc, st, dbg)" by (cases d)
      let ?r = "requested_state hc st
                 (isTargetExternalInputStatus pd (m_planner_param m) (now_external_go clk)
                    IntersectionStatus_GO)
                 (isTargetExternalInputStatus pd (m_planner_param m) (now_external_stop clk)
                    IntersectionStatus_STOP)"
      let ?sm1 = "setStateWithMarginTime ?r (now_state_machine clk) (m_state_machine m)"
      let ?m1 = "m\<lparr>m_state_machine := ?sm1, m_debug_data := dbg\<rparr>"
      from first have sss: "set_stop_speed ?m1 st s j p [] = Inr (ok, path', sr, m')"
        using modifyPathVelocity_continue [OF pre det [unfolded d]] by simp
      from set_stop_speed_module [OF sss] obtain dd where m': "m' = ?m1\<lparr>m_debug_data := dd\<rparr>"
        by blast
      then have same: "m_lane_id m' = m_lane_id m" "m_planner_param m' = m_planner_param m"
        and sm': "m_state_machine m' = ?sm1"
        by simp_all
      from plan_prelude_other_state [OF pre same]
      consider (again) "plan_prelude L pd clk m' path = Inr (Continue p s j c)"
        | (latched) "plan_prelude L pd clk m' path = Inr (Return True p)"
            "getState (m_state_machine m') = GO"
        by blast
      then show ?thesis
      proof cases
        case again
        have det': "detect L pd clk m' p s c (fresh_debug_data L pd m' path) = Inr (hc, st, dbg)"
          using det d by (simp add: detect_cong [OF same] fresh_debug_data_cong [OF same])
        have "setStateWithMarginTime ?r (now_state_machine clk) ?sm1 = ?sm1"
          using margin by (rule setStateWithMarginTime_idem)
        then have "m'\<lparr>m_state_machine :=
            setStateWithMarginTime
              (requested_state hc st
                 (isTargetExternalInputStatus pd (m_planner_param m') (now_external_go clk)
                    IntersectionStatus_GO)
                 (isTargetExternalInputStatus pd (m_planner_param m') (now_external_stop clk)
                    IntersectionStatus_STOP))
              (now_state_machine clk) (m_state_machine m'),
          m_debug_data := dbg\<rparr> = ?m1"
          using m' by simp
        then have "modifyPathVelocity L pd clk m' path = Inr (ok, path', sr, m')"
          using modifyPathVelocity_continue [OF again det'] sss by simp
        then show ?thesis by simp
      next
        case latched
        then have go: "getState (m_state_machine ?m1) = GO"
          using sm' by simp
        from set_stop_speed_GO [OF go, of st s j p "[]"] sss
        have "ok = True" "path' = p" "sr = []" by simp_all
        moreover from latched(1) have "modifyPathVelocity L pd clk m' path =
            Inr (True, p, [], m'\<lparr>m_debug_data := fresh_debug_data L pd m' path\<rparr>)"
          by (simp add: modifyPathVelocity_def bind_result_def)
        ultimately show ?thesis by simp
      qed
    qed
  qed
qed

section \<open>Evaluation at the crossing\<close>

subsection \<open>The library, the data and the map of the crossing\<close>

lemma crossing_lib_simps [simp]:
  "bg_within crossing_lib = box_within"
  "bg_distance crossing_lib = box_distance"
  "bg_intersects_linestring crossing_lib = box_intersects_linestring"
  "bg_intersects crossing_lib = box_intersects"
  "getArcCoordinates_length crossing_lib = north_arc_length"
  "getLaneletLength3d crossing_lib = north_lane_length"
  "getPolygonFromArcLength crossing_lib = north_polygon"
  "isInLanelet crossing_lib = box_isInLanelet"
  "getLaneletAngle crossing_lib = bound_angle"
  "centerline2d_front crossing_lib = north_centerline_front"
  "getYaw crossing_lib = planar_yaw"
  "invert_yaw crossing_lib = planar_invert_yaw"
  "normalizeRadian crossing_lib = normalize_radian"
  "obj2polygon crossing_lib = east_footprint"
  "objective_areas crossing_lib lanelet_map_ptr routing_graph_ptr lane pp =
     ([[(- 2, 4), (2, 4), (2, 8), (- 2, 8)]], [[(- 30, 4), (- 2, 4), (- 2, 8), (- 30, 8)]], [20])"
  "generateStopLine crossing_lib lane conflicting_areas pd pp path =
     (if length path < 3 then (False, path, - 1, - 1, - 1) else (True, path, 2, 1, 0))"
  "calcClosestIndex crossing_lib path pose =
     (if path = [] then None
      else Some (int (closest_index (north_of pose) (map (\<lambda>p. north_of (point_pose p)) path))))"
  "isAheadOf crossing_lib a b = (north_of b < north_of a)"
  "calcArcLengthFromPath crossing_lib path i j =
     north_of (point_pose (path ! j)) - north_of (point_pose (path ! i))"
  by (simp_all add: crossing_lib_def)

lemma crossing_data_simps [simp]:
  "current_pose (crossing_data b v objects input) = pose_at 0 b"
  "current_velocity (crossing_data b v objects input) = v"
  "max_longitudinal_offset_m (crossing_data b v objects input) = 4"
  "vehicle_length_m (crossing_data b v objects input) = 5"
  "dynamic_objects (crossing_data b v objects input) = objects"
  "external_intersection_status_input (crossing_data b v objects input) = input"
  "lanelet_map (crossing_data b v objects input) = crossing_map"
  "routing_graph (crossing_data b v objects input) = [(9, 10), (10, 11)]"
  by (simp_all add: crossing_data_def)

lemma crossing_param_simps [simp]:
  "state_transit_margin_time (crossing_param margin decel) = margin"
  "decel_velocity (crossing_param margin decel) = decel"
  "stuck_vehicle_detect_dist (crossing_param margin decel) = 3"
  "stuck_vehicle_ignore_dist (crossing_param margin decel) = 0"
  "stuck_vehicle_vel_thr (crossing_param margin decel) = 4 / 5"
  "intersection_velocity (crossing_param margin decel) = 4"
  "intersection_max_acc (crossing_param margin decel) = 0"
  "detection_area_margin (crossing_param margin decel) = 1 / 2"
  "detection_area_angle_thr (crossing_param margin decel) = pi / 4"
  "min_predicted_path_confidence (crossing_param margin decel) = 1 / 20"
  "external_input_timeout (crossing_param margin decel) = 1"
  "collision_start_margin_time (crossing_param margin decel) = 5"
  "collision_end_margin_time (crossing_param margin decel) = 2"
  by (simp_all add: crossing_param_def)

lemma crossing_module_simps [simp]:
  "m_lane_id (crossing_module pp state pending) = 10"
  "m_turn_direction (crossing_module pp state pending) = ''straight''"
  "m_has_traffic_light (crossing_module pp state pending) = True"
  "m_planner_param (crossing_module pp state pending) = pp"
  "m_state_machine (crossing_module pp state pending) =
     \<lparr>m_state = state, m_margin_time = state_transit_margin_time pp, m_start_time = pending\<rparr>"
  by (simp_all add: crossing_module_def)

lemma crossing_clock_simps [simp]:
  "now_external_go crossing_clock = 100000000000"
  "now_external_stop crossing_clock = 100000000000"
  "now_cut_predict_path crossing_clock = 100000000000"
  "now_state_machine crossing_clock = 100000000000"
  by (simp_all add: crossing_clock_def)

lemma crossing_map_simps [simp]:
  "laneletLayer_get crossing_map 10 =
     Inr (north_lane 10 0 10 [''turn_direction'' \<mapsto> ''straight''] [TrafficLight])"
  "laneletLayer_get crossing_map 11 = Inr (north_lane 11 10 20 Map.empty [])"
  "laneletLayer_get crossing_map 20 =
     Inr \<lparr>ll_id = 20, attributes = Map.empty, regulatory_elements = [],
          left_bound = [(- 30, 8), (2, 8)], right_bound = [(- 30, 4), (2, 4)]\<rparr>"
  by (simp_all add: crossing_map_def laneletLayer_get_def)

lemma to_int32_10 [simp]: "to_int32 10 = 10"
  by (simp add: to_int32_def)

lemmas box_defs =
  box_intersects_def box_within_def box_distance_def lane_start_def north_arc_length_def
  north_lane_length_def north_polygon_def north_centerline_front_def box_isInLanelet_def
  bound_angle_def planar_yaw_def planar_invert_yaw_def normalize_radian_def east_footprint_def
  north_of_def to_bg2d_def pose_point_def north_lane_def pose_at_def waypoint_def

subsection \<open>The ego lanes, the ego polygon and the profile\<close>

lemma crossing_ego_lanes:
  "getEgoLaneWithNextLane crossing_map 10 crossing_path =
     Inr [north_lane 10 0 10 [''turn_direction'' \<mapsto> ''straight''] [TrafficLight],
          north_lane 11 10 20 Map.empty []]"
  by (simp add: getEgoLaneWithNextLane_def crossing_path_def waypoint_def bind_result_def
      front_def)

lemma crossing_distance:
  "calcDistanceUntilIntersectionLanelet crossing_lib crossing_map 10 crossing_path c = Inr 0"
  by (simp add: calcDistanceUntilIntersectionLanelet_def crossing_path_def waypoint_def
      bind_result_def front_def)

lemma crossing_at_idx:
  "at_idx crossing_path 0 = Inr (waypoint 0 10 10)"
  "at_idx crossing_path 1 = Inr (waypoint 1 10 10)"
  "at_idx crossing_path 2 = Inr (waypoint 2 10 10)"
  "at_idx crossing_path 3 = Inr (waypoint 6 10 10)"
  by (simp_all add: at_idx_def crossing_path_def)

lemma crossing_ego_polygon:
  "generateEgoIntersectionLanePolygon crossing_lib crossing_map 10 crossing_path 0 0 0 0 =
     Inr [(- 2, 0), (2, 0), (2, 10), (- 2, 10), (- 2, 0)]"
  "generateEgoIntersectionLanePolygon crossing_lib crossing_map 10 crossing_path 2 2 0 0 =
     Inr [(- 2, 2), (2, 2), (2, 10), (- 2, 10), (- 2, 2)]"
  "generateEgoIntersectionLanePolygon crossing_lib crossing_map 10 crossing_path 3 3 0 0 =
     Inr [(- 2, 6), (2, 6), (2, 10), (- 2, 10), (- 2, 6)]"
  "generateEgoIntersectionLanePolygon crossing_lib crossing_map 10 crossing_path 0 2 8 0 =
     Inr [(- 2, 2), (2, 2), (2, 18), (- 2, 18), (- 2, 2)]"
  "generateEgoIntersectionLanePolygon crossing_lib crossing_map 10 crossing_path 2 2 8 0 =
     Inr [(- 2, 2), (2, 2), (2, 18), (- 2, 18), (- 2, 2)]"
  by (simp_all add: generateEgoIntersectionLanePolygon_def crossing_ego_lanes crossing_at_idx
      bind_result_def front_def box_defs)

lemma crossing_profile:
  "calcIntersectionPassingTime (crossing_data b (1 / 2) objects input) (crossing_param margin decel)
     crossing_path 0 10 = Inr [(0, 0), (2, 1), (4, 2), (12, 6), (24, 12)]"
  "calcIntersectionPassingTime (crossing_data b (1 / 2) objects input) (crossing_param margin decel)
     crossing_path 2 10 = Inr [(0, 0), (8, 4), (20, 10)]"
  "calcIntersectionPassingTime (crossing_data b (1 / 2) objects input) (crossing_param margin decel)
     crossing_path 3 10 = Inr [(0, 0)]"
  by (simp_all add: calcIntersectionPassingTime_def crossing_path_def calcDist2d_def hasLaneId_def
      box_defs)

subsection \<open>The objects of the crossing\<close>

lemma east_object_simps [simp]:
  "object_id (east_object i kind b speed dims xs) = i"
  "semantic_type (east_object i kind b speed dims xs) = kind"
  "state_pose (east_object i kind b speed dims xs) = pose_at (snd (hd xs)) b"
  "orientation_reliable (east_object i kind b speed dims xs) = True"
  "state_twist_linear_x (east_object i kind b speed dims xs) = speed"
  "predicted_paths (east_object i kind b speed dims xs) = [east_path b xs]"
  "shape_type (east_object i kind b speed dims xs) = BOUNDING_BOX"
  "shape_dimensions (east_object i kind b speed dims xs) = dims"
  by (simp_all add: east_object_def)

lemma pose_at_simps [simp]:
  "position (pose_at a b) = (a, b, 0)"
  "orientation (pose_at a b) = (0, 0, 0, 1)"
  by (simp_all add: pose_at_def)

lemma east_path_simps [simp]:
  "path_poses (east_path b xs) =
     map (\<lambda>x. \<lparr>header_stamp = fst x, pose_pose = pose_at (snd x) b\<rparr>) xs"
  "confidence (east_path b xs) = 1"
  by (simp_all add: east_path_def)

lemma crossing_frame_simps [simp]:
  "fr_ego_poly (crossing_frame a profile) = [(- 2, a), (2, a), (2, 10), (- 2, 10), (- 2, a)]"
  "fr_time_distance_array (crossing_frame a profile) = profile"
  "fr_ego_lane_with_next_lane (crossing_frame a profile) =
     [north_lane 10 0 10 [''turn_direction'' \<mapsto> ''straight''] [TrafficLight],
      north_lane 11 10 20 Map.empty []]"
  "fr_closest_arc_length (crossing_frame a profile) = a"
  "fr_distance_until_intersection (crossing_frame a profile) = 0"
  "fr_base_link2front (crossing_frame a profile) = 4"
  by (simp_all add: crossing_frame_def)

text \<open>
  An object that heads east on lane 20, west of the ego lanes, is a target of the
  collision check.
\<close>

lemma crossing_target:
  assumes "kind \<in> {CAR, BUS, TRUCK, MOTORBIKE, BICYCLE}" "4 \<le> b" "b \<le> 8"
    and "snd (hd xs) = - 6"
  shows "extract_target_objects crossing_lib (crossing_data y v objects input)
           (crossing_param margin decel) [(- 2, a), (2, a), (2, 10), (- 2, 10), (- 2, a)]
           [[(- 30, 4), (- 2, 4), (- 2, 8), (- 30, 8)]] [20]
           (east_object i kind b speed dims xs # rest) =
         bind_result
           (extract_target_objects crossing_lib (crossing_data y v objects input)
              (crossing_param margin decel) [(- 2, a), (2, a), (2, 10), (- 2, 10), (- 2, a)]
              [[(- 30, 4), (- 2, 4), (- 2, 8), (- 30, 8)]] [20] rest)
           (\<lambda>target_objects. Inr (east_object i kind b speed dims xs # target_objects))"
proof -
  have angle: "checkAngleForTargetLanelets crossing_lib (crossing_data y v objects input)
      (crossing_param margin decel) (pose_at (- 6) b) [20] = Inr True"
    using assms(2,3) by (simp add: bind_result_def box_defs Let_def)
  have area: "detection_area_loop crossing_lib (crossing_data y v objects input)
      (crossing_param margin decel) [20] (east_object i kind b speed dims xs)
      [[(- 30, 4), (- 2, 4), (- 2, 8), (- 30, 8)]] = Inr True"
    using assms(2,3,4)
    by (simp add: getObjectPoseWithVelocityDirection_def angle bind_result_def Let_def
        box_distance_def to_bg2d_def del: checkAngleForTargetLanelets.simps)
  have out: "\<not> box_within (to_bg2d (position (pose_at (- 6) b)))
      [(- 2, a), (2, a), (2, 10), (- 2, 10), (- 2, a)]"
    by (simp add: box_within_def to_bg2d_def)
  from assms(1) have kind: "isTargetCollisionVehicleType (east_object i kind b speed dims xs)"
    by (auto simp: isTargetCollisionVehicleType_def)
  show ?thesis
    using kind out assms(4)
    by (simp add: area bind_result_def Let_def del: detection_area_loop.simps
        split: sum.splits)
qed

lemma crossing_targets:
  "extract_target_objects crossing_lib (crossing_data y v objects input)
     (crossing_param margin decel) [(- 2, a), (2, a), (2, 10), (- 2, 10), (- 2, a)]
     [[(- 30, 4), (- 2, 4), (- 2, 8), (- 30, 8)]] [20] [car_A, car_B] = Inr [car_A, car_B]"
  "extract_target_objects crossing_lib (crossing_data y v objects input)
     (crossing_param margin decel) [(- 2, a), (2, a), (2, 10), (- 2, 10), (- 2, a)]
     [[(- 30, 4), (- 2, 4), (- 2, 8), (- 30, 8)]] [20] [car_B, car_A] = Inr [car_B, car_A]"
  "extract_target_objects crossing_lib (crossing_data y v objects input)
     (crossing_param margin decel) [(- 2, a), (2, a), (2, 10), (- 2, 10), (- 2, a)]
     [[(- 30, 4), (- 2, 4), (- 2, 8), (- 30, 8)]] [20] [car_A] = Inr [car_A]"
  "extract_target_objects crossing_lib (crossing_data y v objects input)
     (crossing_param margin decel) [(- 2, a), (2, a), (2, 10), (- 2, 10), (- 2, a)]
     [[(- 30, 4), (- 2, 4), (- 2, 8), (- 30, 8)]] [20] [car_B] = Inr [car_B]"
  "extract_target_objects crossing_lib (crossing_data y v objects input)
     (crossing_param margin decel) [(- 2, a), (2, a), (2, 10), (- 2, 10), (- 2, a)]
     [[(- 30, 4), (- 2, 4), (- 2, 8), (- 30, 8)]] [20] [car_C] = Inr [car_C]"
  "extract_target_objects crossing_lib (crossing_data y v objects input)
     (crossing_param margin decel) [(- 2, a), (2, a), (2, 10), (- 2, 10), (- 2, a)]
     [[(- 30, 4), (- 2, 4), (- 2, 8), (- 30, 8)]] [20] [car_D] = Inr [car_D]"
  unfolding car_A_def car_B_def car_C_def car_D_def
  by (simp_all add: crossing_target bind_result_def del: extract_target_objects.simps(2))

text \<open>The stages of \<^verbatim>\<open>checkCollision\<close> before its second loop.\<close>

lemma checkCollision_stages:
  assumes "generateEgoIntersectionLanePolygon L (lanelet_map pd) lane path c c 0 0 = Inr ego"
    and "extract_target_objects L pd pp ego das ids objects = Inr ts"
    and "calcIntersectionPassingTime pd pp path c (to_int32 lane) = Inr tda"
    and "getEgoLaneWithNextLane (lanelet_map pd) lane path = Inr ls"
    and "at_idx path c = Inr p"
    and "calcDistanceUntilIntersectionLanelet L (lanelet_map pd) lane path c = Inr d"
  shows "checkCollision L pd pp now lane path das ids objects c dbg =
     objects_loop L pp
       \<lparr>fr_ego_poly = ego, fr_time_distance_array = tda, fr_ego_lane_with_next_lane = ls,
        fr_closest_arc_length = getArcCoordinates_length L ls (point_pose p),
        fr_distance_until_intersection = d, fr_base_link2front = max_longitudinal_offset_m pd\<rparr>
       (cutPredictPathWithDuration now ts (fst (last tda)))
       (False, dbg\<lparr>dbg_ego_lane_polygon := ego\<rparr>)"
  by (simp add: checkCollision_def assms bind_result_def)

lemma crossing_checkCollision:
  assumes "extract_target_objects crossing_lib (crossing_data y (1 / 2) objects input)
           (crossing_param margin decel) [(- 2, a), (2, a), (2, 10), (- 2, 10), (- 2, a)]
           [[(- 30, 4), (- 2, 4), (- 2, 8), (- 30, 8)]] [20] objects = Inr objects"
    and "generateEgoIntersectionLanePolygon crossing_lib crossing_map 10 crossing_path c c 0 0 =
           Inr [(- 2, a), (2, a), (2, 10), (- 2, 10), (- 2, a)]"
    and "calcIntersectionPassingTime (crossing_data y (1 / 2) objects input)
           (crossing_param margin decel) crossing_path c 10 = Inr tda"
    and "at_idx crossing_path c = Inr (waypoint a 10 10)" and "0 \<le> a"
  shows "checkCollision crossing_lib (crossing_data y (1 / 2) objects input)
           (crossing_param margin decel) now 10 crossing_path
           [[(- 30, 4), (- 2, 4), (- 2, 8), (- 30, 8)]] [20] objects c dbg =
         objects_loop crossing_lib (crossing_param margin decel) (crossing_frame a tda)
           (cutPredictPathWithDuration now objects (fst (last tda)))
           (False, dbg\<lparr>dbg_ego_lane_polygon := [(- 2, a), (2, a), (2, 10), (- 2, 10), (- 2, a)]\<rparr>)"
proof -
  have "north_arc_length
      [north_lane 10 0 10 [''turn_direction'' \<mapsto> ''straight''] [TrafficLight],
       north_lane 11 10 20 Map.empty []] (point_pose (waypoint a 10 10)) = a"
    using assms(5) by (simp add: box_defs)
  then show ?thesis
    using checkCollision_stages [of crossing_lib "crossing_data y (1 / 2) objects input" 10
        crossing_path c _ "crossing_param margin decel" _ _ objects objects tda _ _ 0 now dbg,
        OF _ assms(1) _ _ assms(4)]
    by (simp add: assms(2) assms(3) crossing_ego_lanes crossing_distance crossing_frame_def)
qed

lemma car_simps [simp]:
  "predicted_paths car_A =
     [east_path 5 [(99900000000, - 6), (100900000000, - 3), (101900000000, 1), (102900000000, 5)]]"
  "predicted_paths car_B =
     [east_path (15 / 2) [(99900000000, - 6), (100400000000, 0), (100900000000, 6)]]"
  "predicted_paths car_C = [east_path 7 [(98000000000, - 6), (99000000000, - 1)]]"
  "predicted_paths car_D =
     [east_path 5 [(100000000000, - 6), (101000000000, - 3), (102000000000, 1), (103000000000, 5)]]"
  "shape_dimensions car_A = (4, 2, 2)" "shape_dimensions car_B = (4, 1, 2)"
  "shape_dimensions car_C = (4, 2, 2)" "shape_dimensions car_D = (4, 2, 2)"
  "object_id car_A = 1" "object_id car_B = 2" "object_id car_C = 3" "object_id car_D = 4"
  by (simp_all add: car_A_def car_B_def car_C_def car_D_def)

lemma car_speeds [simp]:
  "semantic_type car_A = CAR" "state_twist_linear_x car_A = 4"
  by (simp_all add: car_A_def)

text \<open>
  The cut of the predicted paths: within the passing time of the vehicle that
  approaches, every pose of \<open>A\<close> and \<open>B\<close> is kept; with a passing time of zero, the two
  poses of \<open>C\<close> are kept and no pose of \<open>D\<close> is.
\<close>

lemma crossing_cut:
  "cutPredictPathWithDuration 100000000000 [car_A, car_B] 24 = [car_A, car_B]"
  "cutPredictPathWithDuration 100000000000 [car_B, car_A] 24 = [car_B, car_A]"
  "cutPredictPathWithDuration 100000000000 [car_B] 24 = [car_B]"
  "cutPredictPathWithDuration 100000000000 [car_A] 24 = [car_A]"
  "cutPredictPathWithDuration 100000000000 [car_A] 20 = [car_A]"
  "cutPredictPathWithDuration 100000000000 [car_C] 0 = [car_C]"
  "cutPredictPathWithDuration 100000000000 [car_D] 0 = [car_D\<lparr>predicted_paths := [east_path 5 []]\<rparr>]"
  by (simp_all add: cutPredictPathWithDuration_def car_A_def car_B_def car_C_def car_D_def
      east_object_def east_path_def seconds_def)

lemmas check_defs =
  check_predicted_path_def toPredictedFootprintPolygon_def lower_bound_def seconds_def
  bind_result_def front_def Let_def box_defs

text \<open>
  The car \<open>A\<close> against the vehicle that approaches at half a metre per second: the
  second segment of its path enters the ego polygon, the ego polygon is trimmed to the
  arc lengths from 0 to 10, and the footprint of the second pose intersects it.
\<close>

lemma check_car_A:
  "check_predicted_path crossing_lib (crossing_param margin decel)
     (crossing_frame 0 [(0, 0), (2, 1), (4, 2), (12, 6), (24, 12)]) car_A
     (east_path 5 [(99900000000, - 6), (100900000000, - 3), (101900000000, 1), (102900000000, 5)])
     (cd, dbg) =
   Inr (True, True,
        dbg\<lparr>dbg_candidate_collision_ego_lane_polygon :=
              [(- 2, 0), (2, 0), (2, 10), (- 2, 10), (- 2, 0)],
            dbg_candidate_collision_object_polygons :=
              dbg_candidate_collision_object_polygons dbg @
              [[(- 5, 4), (- 1, 4), (- 1, 6), (- 5, 6)]],
            dbg_conflicting_targets := dbg_conflicting_targets dbg @ [car_A]\<rparr>)"
  by (simp add: check_defs)

text \<open>
  The car \<open>B\<close> against the same vehicle: its path crosses the ego polygon, seven and a
  half metres north, but the ego polygon is trimmed to the arc lengths from 0 to 6, and
  none of its three footprints intersects it. It is recorded when, and only when, the
  flag is already set.
\<close>

lemma check_car_B:
  "check_predicted_path crossing_lib (crossing_param margin decel)
     (crossing_frame 0 [(0, 0), (2, 1), (4, 2), (12, 6), (24, 12)]) car_B
     (east_path (15 / 2) [(99900000000, - 6), (100400000000, 0), (100900000000, 6)])
     (cd, dbg) =
   Inr (cd, cd,
        dbg\<lparr>dbg_candidate_collision_ego_lane_polygon :=
              [(- 2, 0), (2, 0), (2, 6), (- 2, 6), (- 2, 0)],
            dbg_candidate_collision_object_polygons :=
              dbg_candidate_collision_object_polygons dbg @
              [[(- 8, 7), (- 4, 7), (- 4, 8), (- 8, 8)], [(- 2, 7), (2, 7), (2, 8), (- 2, 8)],
               [(4, 7), (8, 7), (8, 8), (4, 8)]],
            dbg_conflicting_targets :=
              dbg_conflicting_targets dbg @ (if cd then [car_B] else [])\<rparr>)"
  by (cases cd) (simp_all add: check_defs)

text \<open>
  The car \<open>C\<close> against the vehicle six metres north, with the single-pair profile: the
  ego polygon is trimmed to the arc lengths from 6 to 10, and the footprint of the second
  pose intersects it.
\<close>

lemma check_car_C:
  "check_predicted_path crossing_lib (crossing_param margin decel) (crossing_frame 6 [(0, 0)])
     car_C (east_path 7 [(98000000000, - 6), (99000000000, - 1)]) (cd, dbg) =
   Inr (True, True,
        dbg\<lparr>dbg_candidate_collision_ego_lane_polygon :=
              [(- 2, 6), (2, 6), (2, 10), (- 2, 10), (- 2, 6)],
            dbg_candidate_collision_object_polygons :=
              dbg_candidate_collision_object_polygons dbg @
              [[(- 8, 6), (- 4, 6), (- 4, 8), (- 8, 8)], [(- 3, 6), (1, 6), (1, 8), (- 3, 8)]],
            dbg_conflicting_targets := dbg_conflicting_targets dbg @ [car_C]\<rparr>)"
  by (simp add: check_defs)

text \<open>
  The car \<open>A\<close> against the vehicle two metres north: the ego polygon is trimmed to the
  arc lengths from 2 to 10, and the footprint of the second pose intersects it.
\<close>

lemma check_car_A_near:
  "check_predicted_path crossing_lib (crossing_param margin decel)
     (crossing_frame 2 [(0, 0), (8, 4), (20, 10)]) car_A
     (east_path 5 [(99900000000, - 6), (100900000000, - 3), (101900000000, 1), (102900000000, 5)])
     (cd, dbg) =
   Inr (True, True,
        dbg\<lparr>dbg_candidate_collision_ego_lane_polygon :=
              [(- 2, 2), (2, 2), (2, 10), (- 2, 10), (- 2, 2)],
            dbg_candidate_collision_object_polygons :=
              dbg_candidate_collision_object_polygons dbg @
              [[(- 5, 4), (- 1, 4), (- 1, 6), (- 5, 6)]],
            dbg_conflicting_targets := dbg_conflicting_targets dbg @ [car_A]\<rparr>)"
  by (simp add: check_defs)

subsection \<open>The conflicting targets\<close>

lemma collision_A_B:
  "checkCollision crossing_lib (crossing_data 0 (1 / 2) [car_A, car_B] None) (crossing_param 2 8)
     100000000000 10 crossing_path [[(- 30, 4), (- 2, 4), (- 2, 8), (- 30, 8)]] [20]
     [car_A, car_B] 0 dbg =
   objects_loop crossing_lib (crossing_param 2 8)
     (crossing_frame 0 [(0, 0), (2, 1), (4, 2), (12, 6), (24, 12)]) [car_A, car_B]
     (False, dbg\<lparr>dbg_ego_lane_polygon := [(- 2, 0), (2, 0), (2, 10), (- 2, 10), (- 2, 0)]\<rparr>)"
  "checkCollision crossing_lib (crossing_data 0 (1 / 2) [car_B] None) (crossing_param 2 8)
     100000000000 10 crossing_path [[(- 30, 4), (- 2, 4), (- 2, 8), (- 30, 8)]] [20]
     [car_B] 0 dbg =
   objects_loop crossing_lib (crossing_param 2 8)
     (crossing_frame 0 [(0, 0), (2, 1), (4, 2), (12, 6), (24, 12)]) [car_B]
     (False, dbg\<lparr>dbg_ego_lane_polygon := [(- 2, 0), (2, 0), (2, 10), (- 2, 10), (- 2, 0)]\<rparr>)"
  "checkCollision crossing_lib (crossing_data 0 (1 / 2) [car_B, car_A] None) (crossing_param 2 8)
     100000000000 10 crossing_path [[(- 30, 4), (- 2, 4), (- 2, 8), (- 30, 8)]] [20]
     [car_B, car_A] 0 dbg =
   objects_loop crossing_lib (crossing_param 2 8)
     (crossing_frame 0 [(0, 0), (2, 1), (4, 2), (12, 6), (24, 12)]) [car_B, car_A]
     (False, dbg\<lparr>dbg_ego_lane_polygon := [(- 2, 0), (2, 0), (2, 10), (- 2, 10), (- 2, 0)]\<rparr>)"
  using crossing_checkCollision [OF crossing_targets(1) crossing_ego_polygon(1)
      crossing_profile(1) crossing_at_idx(1), of 0 None 2 8 100000000000 dbg]
    crossing_checkCollision [OF crossing_targets(4) crossing_ego_polygon(1)
      crossing_profile(1) crossing_at_idx(1), of 0 None 2 8 100000000000 dbg]
    crossing_checkCollision [OF crossing_targets(2) crossing_ego_polygon(1)
      crossing_profile(1) crossing_at_idx(1), of 0 None 2 8 100000000000 dbg]
  by (simp_all add: crossing_cut del: objects_loop.simps)

text \<open>
  Claim C5, which the code does not meet. The flag \<^verbatim>\<open>collision_detected\<close> is declared
  before the loop over the objects and is never reset, and the object is recorded when
  the flag is set, not when one of its own footprints intersects. At the crossing, the
  car \<open>A\<close> truly intersects and the car \<open>B\<close> does not: none of the three footprints of
  \<open>B\<close> intersects the ego polygon trimmed for \<open>B\<close>, and \<open>B\<close> alone is not recorded. But
  with \<open>A\<close> before \<open>B\<close> in the objects, both are recorded, and with \<open>B\<close> before \<open>A\<close>, only
  \<open>A\<close> is: the recorded list depends on the order of the objects, and it is not the list
  of the objects that intersect. (Each outcome is the returned value, the identifiers of
  the recorded objects and the number of footprints tested.)
\<close>

theorem conflicting_targets_stale_flag:
  "collision_outcome
     (checkCollision crossing_lib (crossing_data 0 (1 / 2) [car_A, car_B] None) (crossing_param 2 8)
        100000000000 10 crossing_path [[(- 30, 4), (- 2, 4), (- 2, 8), (- 30, 8)]] [20]
        [car_A, car_B] 0 DebugData_init) = Inr (True, [1, 2], 4) \<and>
   collision_outcome
     (checkCollision crossing_lib (crossing_data 0 (1 / 2) [car_B] None) (crossing_param 2 8)
        100000000000 10 crossing_path [[(- 30, 4), (- 2, 4), (- 2, 8), (- 30, 8)]] [20]
        [car_B] 0 DebugData_init) = Inr (False, [], 3) \<and>
   collision_outcome
     (checkCollision crossing_lib (crossing_data 0 (1 / 2) [car_B, car_A] None) (crossing_param 2 8)
        100000000000 10 crossing_path [[(- 30, 4), (- 2, 4), (- 2, 8), (- 30, 8)]] [20]
        [car_B, car_A] 0 DebugData_init) = Inr (True, [1], 4)"
  by (simp add: collision_A_B check_car_A check_car_B bind_result_def collision_outcome_def
      DebugData_init_def)

subsection \<open>The single-pair profile\<close>

lemma collision_lost:
  "checkCollision crossing_lib (crossing_data 6 (1 / 2) [car_C] None) (crossing_param 2 8)
     100000000000 10 crossing_path [[(- 30, 4), (- 2, 4), (- 2, 8), (- 30, 8)]] [20]
     [car_C] 3 dbg =
   objects_loop crossing_lib (crossing_param 2 8) (crossing_frame 6 [(0, 0)]) [car_C]
     (False, dbg\<lparr>dbg_ego_lane_polygon := [(- 2, 6), (2, 6), (2, 10), (- 2, 10), (- 2, 6)]\<rparr>)"
  "checkCollision crossing_lib (crossing_data 6 (1 / 2) [car_D] None) (crossing_param 2 8)
     100000000000 10 crossing_path [[(- 30, 4), (- 2, 4), (- 2, 8), (- 30, 8)]] [20]
     [car_D] 3 dbg =
   objects_loop crossing_lib (crossing_param 2 8) (crossing_frame 6 [(0, 0)])
     [car_D\<lparr>predicted_paths := [east_path 5 []]\<rparr>]
     (False, dbg\<lparr>dbg_ego_lane_polygon := [(- 2, 6), (2, 6), (2, 10), (- 2, 10), (- 2, 6)]\<rparr>)"
  using crossing_checkCollision [OF crossing_targets(5) crossing_ego_polygon(3)
      crossing_profile(3) crossing_at_idx(4), of 6 None 2 8 100000000000 dbg]
    crossing_checkCollision [OF crossing_targets(6) crossing_ego_polygon(3)
      crossing_profile(3) crossing_at_idx(4), of 6 None 2 8 100000000000 dbg]
  by (simp_all add: crossing_cut del: objects_loop.simps)

lemma collision_untested:
  "checkCollision crossing_lib (crossing_data 6 (1 / 2) [car_D] None) (crossing_param 2 8)
     100000000000 10 crossing_path [[(- 30, 4), (- 2, 4), (- 2, 8), (- 30, 8)]] [20]
     [car_D] 3 dbg =
   Inr (False, dbg\<lparr>dbg_ego_lane_polygon := [(- 2, 6), (2, 6), (2, 10), (- 2, 10), (- 2, 6)]\<rparr>)"
  by (simp add: collision_lost(2) check_predicted_path_def east_path_def bind_result_def
      Let_def)

text \<open>
  Claim C6, which the code does not meet. With the vehicle at the waypoint 3, no waypoint
  after it is tagged with the lane 10 and \<^verbatim>\<open>calcIntersectionPassingTime\<close> returns the
  single pair, as the claim says. But \<^verbatim>\<open>checkCollision\<close> does not test for this profile:
  it takes the passing time zero from it, \<^verbatim>\<open>cutPredictPathWithDuration\<close> keeps the poses
  stamped strictly before the clock reading, and the loops over the objects run on them.
  The predicted poses of the car \<open>C\<close> are stamped two seconds and one second before the
  clock reading: both are kept, two footprints are tested, the collision is found and
  \<open>C\<close> is recorded. The poses of the car \<open>D\<close> are stamped at the clock reading and later:
  none is kept and nothing is tested. (Each outcome is the returned value, the
  identifiers of the recorded objects and the number of footprints tested.)
\<close>

theorem degenerate_profile_collision_tested:
  "calcIntersectionPassingTime (crossing_data 6 (1 / 2) [car_C] None) (crossing_param 2 8)
     crossing_path 3 10 = Inr [(0, 0)] \<and>
   cutPredictPathWithDuration 100000000000 [car_C] (fst (last [(0, 0)])) = [car_C] \<and>
   collision_outcome
     (checkCollision crossing_lib (crossing_data 6 (1 / 2) [car_C] None) (crossing_param 2 8)
        100000000000 10 crossing_path [[(- 30, 4), (- 2, 4), (- 2, 8), (- 30, 8)]] [20]
        [car_C] 3 DebugData_init) = Inr (True, [3], 2) \<and>
   collision_outcome
     (checkCollision crossing_lib (crossing_data 6 (1 / 2) [car_D] None) (crossing_param 2 8)
        100000000000 10 crossing_path [[(- 30, 4), (- 2, 4), (- 2, 8), (- 30, 8)]] [20]
        [car_D] 3 DebugData_init) = Inr (False, [], 0)"
  by (simp add: crossing_profile crossing_cut collision_lost(1) collision_untested check_car_C
      bind_result_def collision_outcome_def DebugData_init_def)

subsection \<open>A profile with acceleration\<close>

text \<open>
  The claim C7 at a path of five waypoints, 0, 1, 5, 8 and 20 metres north, the second
  and the third in lane 10: from one metre per second with an acceleration of one and a
  half and a cap of four, the speeds are 2, 4 and 4, and the profile ends at the fourth
  waypoint, the first that is no longer in lane 10.
\<close>

theorem calcIntersectionPassingTime_profile_witness:
  "0 \<le> (0::int) \<and>
   calcIntersectionPassingTime (crossing_data 0 1 [] None)
     ((crossing_param 2 8)\<lparr>intersection_max_acc := 3 / 2\<rparr>)
     [waypoint 0 10 9, waypoint 1 10 10, waypoint 5 10 10, waypoint 8 10 11, waypoint 20 10 11]
     0 10 = Inr [(0, 0), (2 / 3, 1), (2, 5), (11 / 4, 8)]"
  using calcIntersectionPassingTime_profile [of 0 "crossing_data 0 1 [] None"
      "(crossing_param 2 8)\<lparr>intersection_max_acc := 3 / 2\<rparr>"
      "[waypoint 0 10 9, waypoint 1 10 10, waypoint 5 10 10, waypoint 8 10 11, waypoint 20 10 11]"
      10]
  by (simp add: spec_profile_def spec_covered_def hasLaneId_def calcDist2d_def Let_def
      waypoint_def to_bg2d_def crossing_param_def)

subsection \<open>Cycles at the crossing\<close>

lemma crossing_module_init:
  "IntersectionModule_init 10 (crossing_data b v objects input) pp
     \<lparr>m_state = state, m_margin_time = 0, m_start_time = pending\<rparr> =
   Inr (crossing_module pp state pending)"
  by (simp add: IntersectionModule_init_def bind_result_def crossing_module_def north_lane_def
      attributeOr_def regulatoryElementsAs_TrafficLight_def setMarginTime_def)

text \<open>
  The lines and the closest index: the stop line at the waypoint 2, the pass-judge line
  at the waypoint 1, and the closest waypoint 0 for the vehicle at the start of the lane,
  2 for the vehicle two metres north.
\<close>

lemma crossing_locate:
  assumes "m_lane_id m = 10"
  shows "locate_lines crossing_lib (crossing_data 0 v objects input) m crossing_path =
           Continue crossing_path 2 1 0"
    and "locate_lines crossing_lib (crossing_data 2 v objects input) m crossing_path =
           Continue crossing_path 2 1 2"
  using assms
  by (simp_all add: locate_lines_def crossing_path_def waypoint_def north_of_def to_bg2d_def)

lemma crossing_prelude:
  assumes "m_lane_id m = 10"
  shows "plan_prelude crossing_lib (crossing_data 0 v objects input) clk m crossing_path =
           Inr (Continue crossing_path 2 1 0)"
  by (simp add: plan_prelude_def crossing_locate [OF assms] is_over_pass_judge_line_def
      bind_result_def)

text \<open>
  The stuck-vehicle check for the vehicle at the start of the lane: the area reaches from
  2 to 18 metres north; the car \<open>A\<close> moves, so it is not stuck.
\<close>

lemma crossing_stuck:
  "checkStuckVehicleInIntersection crossing_lib (crossing_data 0 v objects input)
     (crossing_param margin decel) 10 crossing_path 0 2 [] dbg =
   Inr (False, dbg\<lparr>dbg_stuck_vehicle_detect_area :=
                     [(- 2, 2), (2, 2), (2, 18), (- 2, 18), (- 2, 2)]\<rparr>)"
  "checkStuckVehicleInIntersection crossing_lib (crossing_data 0 v objects input)
     (crossing_param margin decel) 10 crossing_path 0 2 [car_A] dbg =
   Inr (False, dbg\<lparr>dbg_stuck_vehicle_detect_area :=
                     [(- 2, 2), (2, 2), (2, 18), (- 2, 18), (- 2, 2)]\<rparr>)"
  "checkStuckVehicleInIntersection crossing_lib (crossing_data 2 v objects input)
     (crossing_param margin decel) 10 crossing_path 2 2 [car_A] dbg =
   Inr (False, dbg\<lparr>dbg_stuck_vehicle_detect_area :=
                     [(- 2, 2), (2, 2), (2, 18), (- 2, 18), (- 2, 2)]\<rparr>)"
  by (simp_all add: checkStuckVehicleInIntersection_def crossing_ego_polygon bind_result_def
      isTargetStuckVehicleType_def)

lemma collision_none:
  "checkCollision crossing_lib (crossing_data 0 (1 / 2) [] input) (crossing_param margin decel)
     now 10 crossing_path [[(- 30, 4), (- 2, 4), (- 2, 8), (- 30, 8)]] [20] [] 0 dbg =
   Inr (False, dbg\<lparr>dbg_ego_lane_polygon := [(- 2, 0), (2, 0), (2, 10), (- 2, 10), (- 2, 0)]\<rparr>)"
  using crossing_checkCollision [OF _ crossing_ego_polygon(1) crossing_profile(1)
      crossing_at_idx(1), of 0 "[]" input margin decel now dbg]
  by (simp add: cutPredictPathWithDuration_def)

lemma collision_A:
  "\<exists>dbg'. checkCollision crossing_lib (crossing_data 0 (1 / 2) [car_A] input)
     (crossing_param margin decel) 100000000000 10 crossing_path
     [[(- 30, 4), (- 2, 4), (- 2, 8), (- 30, 8)]] [20] [car_A] 0 dbg = Inr (True, dbg')"
  using crossing_checkCollision [OF crossing_targets(3) crossing_ego_polygon(1)
      crossing_profile(1) crossing_at_idx(1), of 0 input margin decel 100000000000 dbg]
  by (simp add: crossing_cut check_car_A bind_result_def)

lemma collision_A_near:
  "\<exists>dbg'. checkCollision crossing_lib (crossing_data 2 (1 / 2) [car_A] input)
     (crossing_param margin decel) 100000000000 10 crossing_path
     [[(- 30, 4), (- 2, 4), (- 2, 8), (- 30, 8)]] [20] [car_A] 2 dbg = Inr (True, dbg')"
  using crossing_checkCollision [OF crossing_targets(3) crossing_ego_polygon(2)
      crossing_profile(2) crossing_at_idx(3), of 2 input margin decel 100000000000 dbg]
  by (simp add: crossing_cut check_car_A_near bind_result_def)

text \<open>The two detections: no object, and the car \<open>A\<close>.\<close>

lemma crossing_detect:
  assumes "m_lane_id m = 10" "m_planner_param m = crossing_param margin decel"
  shows "\<exists>dbg'. detect crossing_lib (crossing_data 0 (1 / 2) [] input) crossing_clock m
           crossing_path 2 0 dbg = Inr (False, False, dbg')"
    and "\<exists>dbg'. detect crossing_lib (crossing_data 0 (1 / 2) [car_A] input) crossing_clock m
           crossing_path 2 0 dbg = Inr (True, False, dbg')"
    and "\<exists>dbg'. detect crossing_lib (crossing_data 2 (1 / 2) [car_A] input) crossing_clock m
           crossing_path 2 2 dbg = Inr (True, False, dbg')"
proof -
  show "\<exists>dbg'. detect crossing_lib (crossing_data 0 (1 / 2) [] input) crossing_clock m
           crossing_path 2 0 dbg = Inr (False, False, dbg')"
    by (simp add: detect_def assms collision_none crossing_stuck bind_result_def)
  from collision_A [of input margin decel dbg] obtain d1 where
    "checkCollision crossing_lib (crossing_data 0 (1 / 2) [car_A] input)
     (crossing_param margin decel) 100000000000 10 crossing_path
     [[(- 30, 4), (- 2, 4), (- 2, 8), (- 30, 8)]] [20] [car_A] 0 dbg = Inr (True, d1)"
    by blast
  then show "\<exists>dbg'. detect crossing_lib (crossing_data 0 (1 / 2) [car_A] input) crossing_clock m
           crossing_path 2 0 dbg = Inr (True, False, dbg')"
    by (simp add: detect_def assms crossing_stuck bind_result_def)
  from collision_A_near [of input margin decel dbg] obtain d2 where
    "checkCollision crossing_lib (crossing_data 2 (1 / 2) [car_A] input)
     (crossing_param margin decel) 100000000000 10 crossing_path
     [[(- 30, 4), (- 2, 4), (- 2, 8), (- 30, 8)]] [20] [car_A] 2 dbg = Inr (True, d2)"
    by blast
  then show "\<exists>dbg'. detect crossing_lib (crossing_data 2 (1 / 2) [car_A] input) crossing_clock m
           crossing_path 2 2 dbg = Inr (True, False, dbg')"
    by (simp add: detect_def assms crossing_stuck bind_result_def)
qed

text \<open>What a cycle that reaches the state machine returns, as the examples observe it.\<close>

lemma cycle_outcome_set_stop_speed:
  "cycle_outcome (set_stop_speed m is_stuck s j path sr) =
     (if getState (m_state_machine m) = STOP
      then
        (if is_stuck \<or> \<not> m_has_traffic_light m \<or> m_turn_direction m \<noteq> ''straight''
         then
           (if 0 \<le> s \<and> s < int (length path) \<and> 0 \<le> j \<and> j < int (length path)
            then Inr (True, map point_twist_linear_x (setVelocityFrom s 0 path), STOP)
            else Inl out_of_range)
         else Inr (True, map point_twist_linear_x
                 (setVelocityFrom s (decel_velocity (m_planner_param m)) path), STOP))
      else Inr (True, map point_twist_linear_x path, getState (m_state_machine m)))"
  by (simp add: cycle_outcome_def set_stop_speed_def bind_result_def at_idx_def Let_def)

lemma cycle_outcome_continue:
  assumes "plan_prelude L pd clk m path = Inr (Continue p s j c)"
    and "\<exists>dbg. detect L pd clk m p s c (fresh_debug_data L pd m path) = Inr (hc, st, dbg)"
  shows "\<exists>dbg. cycle_outcome (modifyPathVelocity L pd clk m path) =
     cycle_outcome (set_stop_speed
       (m\<lparr>m_state_machine :=
            setStateWithMarginTime
              (requested_state hc st
                 (isTargetExternalInputStatus pd (m_planner_param m) (now_external_go clk)
                    IntersectionStatus_GO)
                 (isTargetExternalInputStatus pd (m_planner_param m) (now_external_stop clk)
                    IntersectionStatus_STOP))
              (now_state_machine clk) (m_state_machine m),
          m_debug_data := dbg\<rparr>) st s j p [])"
  using assms modifyPathVelocity_continue [OF assms(1)] by metis

lemma crossing_velocities:
  "map point_twist_linear_x (setVelocityFrom 2 v crossing_path) = [10, 10, v, v, v]"
  "map point_twist_linear_x crossing_path = [10, 10, 10, 10, 10]"
  "length crossing_path = 5"
  by (simp_all add: setVelocityFrom_def crossing_path_def waypoint_def)

text \<open>
  A cycle at the crossing with the vehicle at the start of the lane, slow, for a module
  of lane 10 in any state, straight and with a traffic light: the outcome for no object
  and for the car \<open>A\<close>.
\<close>

lemma crossing_cycle:
  assumes "m_lane_id m = 10" "m_planner_param m = crossing_param margin decel"
    and "m_has_traffic_light m" "m_turn_direction m = ''straight''"
  shows "cycle_outcome (modifyPathVelocity crossing_lib (crossing_data 0 (1 / 2) [] input)
             crossing_clock m crossing_path) =
      (let sm = setStateWithMarginTime
                  (requested_state False False
                     (isTargetExternalInputStatus (crossing_data 0 (1 / 2) [] input)
                        (crossing_param margin decel) 100000000000 IntersectionStatus_GO)
                     (isTargetExternalInputStatus (crossing_data 0 (1 / 2) [] input)
                        (crossing_param margin decel) 100000000000 IntersectionStatus_STOP))
                  100000000000 (m_state_machine m)
       in if m_state sm = STOP then Inr (True, [10, 10, decel, decel, decel], STOP)
          else Inr (True, [10, 10, 10, 10, 10], GO))"
    and "cycle_outcome (modifyPathVelocity crossing_lib (crossing_data 0 (1 / 2) [car_A] input)
             crossing_clock m crossing_path) =
      (let sm = setStateWithMarginTime
                  (requested_state True False
                     (isTargetExternalInputStatus (crossing_data 0 (1 / 2) [car_A] input)
                        (crossing_param margin decel) 100000000000 IntersectionStatus_GO)
                     (isTargetExternalInputStatus (crossing_data 0 (1 / 2) [car_A] input)
                        (crossing_param margin decel) 100000000000 IntersectionStatus_STOP))
                  100000000000 (m_state_machine m)
       in if m_state sm = STOP then Inr (True, [10, 10, decel, decel, decel], STOP)
          else Inr (True, [10, 10, 10, 10, 10], GO))"
proof -
  have state: "sm = GO" if "sm \<noteq> STOP" for sm
    using that by (cases sm) simp_all
  from cycle_outcome_continue [OF crossing_prelude [OF assms(1), where input = input]
      crossing_detect(1) [OF assms(1,2)]]
  show "cycle_outcome (modifyPathVelocity crossing_lib (crossing_data 0 (1 / 2) [] input)
             crossing_clock m crossing_path) =
      (let sm = setStateWithMarginTime
                  (requested_state False False
                     (isTargetExternalInputStatus (crossing_data 0 (1 / 2) [] input)
                        (crossing_param margin decel) 100000000000 IntersectionStatus_GO)
                     (isTargetExternalInputStatus (crossing_data 0 (1 / 2) [] input)
                        (crossing_param margin decel) 100000000000 IntersectionStatus_STOP))
                  100000000000 (m_state_machine m)
       in if m_state sm = STOP then Inr (True, [10, 10, decel, decel, decel], STOP)
          else Inr (True, [10, 10, 10, 10, 10], GO))"
    using assms
    by (auto simp: cycle_outcome_set_stop_speed crossing_velocities getState_def Let_def
        dest: state)
  from cycle_outcome_continue [OF crossing_prelude [OF assms(1), where input = input]
      crossing_detect(2) [OF assms(1,2)]]
  show "cycle_outcome (modifyPathVelocity crossing_lib (crossing_data 0 (1 / 2) [car_A] input)
             crossing_clock m crossing_path) =
      (let sm = setStateWithMarginTime
                  (requested_state True False
                     (isTargetExternalInputStatus (crossing_data 0 (1 / 2) [car_A] input)
                        (crossing_param margin decel) 100000000000 IntersectionStatus_GO)
                     (isTargetExternalInputStatus (crossing_data 0 (1 / 2) [car_A] input)
                        (crossing_param margin decel) 100000000000 IntersectionStatus_STOP))
                  100000000000 (m_state_machine m)
       in if m_state sm = STOP then Inr (True, [10, 10, decel, decel, decel], STOP)
          else Inr (True, [10, 10, 10, 10, 10], GO))"
    using assms
    by (auto simp: cycle_outcome_set_stop_speed crossing_velocities getState_def Let_def
        dest: state)
qed

lemma cycle_outcome_InrD:
  "cycle_outcome r = Inr v \<Longrightarrow> \<exists>ok path' sr m'. r = Inr (ok, path', sr, m')"
  by (cases r) (auto simp: cycle_outcome_def)

lemma cycle_outcome_Inr:
  "cycle_outcome (Inr (ok, path', sr, m')) =
     Inr (ok, map point_twist_linear_x path', getState (m_state_machine m'))"
  by (simp add: cycle_outcome_def)

lemma detect_outcome_Inr: "detect_outcome (Inr (hc, st, dbg)) = Inr (hc, st)"
  by (simp add: detect_outcome_def)

lemma stuck_outcome_Inr:
  "stuck_outcome (Inr (st, dbg)) = Inr (st, map object_id (dbg_stuck_targets dbg))"
  by (simp add: stuck_outcome_def)

text \<open>The same snapshot evaluated twice, with no object.\<close>

lemma crossing_again:
  assumes "m_lane_id m = 10" "m_planner_param m = crossing_param margin decel"
    and "m_has_traffic_light m" "m_turn_direction m = ''straight''"
  shows "cycle_outcome (evaluate_again crossing_lib (crossing_data 0 (1 / 2) [] input)
             crossing_clock m crossing_path) =
      (let request = requested_state False False
                     (isTargetExternalInputStatus (crossing_data 0 (1 / 2) [] input)
                        (crossing_param margin decel) 100000000000 IntersectionStatus_GO)
                     (isTargetExternalInputStatus (crossing_data 0 (1 / 2) [] input)
                        (crossing_param margin decel) 100000000000 IntersectionStatus_STOP);
           sm = setStateWithMarginTime request 100000000000
                  (setStateWithMarginTime request 100000000000 (m_state_machine m))
       in if m_state sm = STOP then Inr (True, [10, 10, decel, decel, decel], STOP)
          else Inr (True, [10, 10, 10, 10, 10], GO))"
proof -
  let ?pd = "crossing_data 0 (1 / 2) [] input"
  let ?r = "modifyPathVelocity crossing_lib ?pd crossing_clock m crossing_path"
  have "\<exists>v. cycle_outcome ?r = Inr v"
    using crossing_cycle(1) [OF assms, of input] by (auto simp: Let_def)
  then obtain ok path' sr m' where r: "?r = Inr (ok, path', sr, m')"
    using cycle_outcome_InrD by blast
  obtain dbg where det: "detect crossing_lib ?pd crossing_clock m crossing_path 2 0
      (fresh_debug_data crossing_lib ?pd m crossing_path) = Inr (False, False, dbg)"
    using crossing_detect(1) [OF assms(1,2)] by blast
  note pre = crossing_prelude [OF assms(1), of "1 / 2" "[]" input crossing_clock]
  from r set_stop_speed_module obtain d where m': "m' =
      m\<lparr>m_state_machine :=
            setStateWithMarginTime
              (requested_state False False
                 (isTargetExternalInputStatus ?pd (m_planner_param m)
                    (now_external_go crossing_clock) IntersectionStatus_GO)
                 (isTargetExternalInputStatus ?pd (m_planner_param m)
                    (now_external_stop crossing_clock) IntersectionStatus_STOP))
              (now_state_machine crossing_clock) (m_state_machine m),
          m_debug_data := dbg, m_debug_data := d\<rparr>"
    unfolding modifyPathVelocity_continue [OF pre det] by blast
  then have fields: "m_lane_id m' = 10" "m_planner_param m' = crossing_param margin decel"
    "m_has_traffic_light m'" "m_turn_direction m' = ''straight''"
    using assms by simp_all
  from m' assms(2) have sm: "m_state_machine m' =
      setStateWithMarginTime
        (requested_state False False
           (isTargetExternalInputStatus ?pd (crossing_param margin decel) 100000000000
              IntersectionStatus_GO)
           (isTargetExternalInputStatus ?pd (crossing_param margin decel) 100000000000
              IntersectionStatus_STOP))
        100000000000 (m_state_machine m)"
    by simp
  show ?thesis
    by (simp add: evaluate_again_def r bind_result_def crossing_cycle(1) [OF fields] sm Let_def)
qed

subsection \<open>The external signals\<close>


subsection \<open>The velocity written on STOP\<close>

text \<open>
  At the crossing, lane 10 is straight and has a traffic light, and the car \<open>A\<close> is a
  collision but no stuck vehicle. With a decel velocity of eight the cycle writes eight
  from the stop line on and leaves \<^verbatim>\<open>stop_required\<close> unset.
\<close>

theorem stop_velocity_policy_witness:
  "IntersectionModule_init 10 (crossing_data 0 (1 / 2) [car_A] None) (crossing_param 2 8)
     \<lparr>m_state = STOP, m_margin_time = 0, m_start_time = None\<rparr> =
     Inr (crossing_module (crossing_param 2 8) STOP None) \<and>
   (\<exists>path' sr m'.
      modifyPathVelocity crossing_lib (crossing_data 0 (1 / 2) [car_A] None) crossing_clock
        (crossing_module (crossing_param 2 8) STOP None) crossing_path =
        Inr (True, path', sr, m') \<and>
      getState (m_state_machine m') = STOP \<and>
      length path' = 5 \<and>
      map point_twist_linear_x path' = [10, 10, 8, 8, 8] \<and>
      \<not> dbg_stop_required (m_debug_data m'))"
proof -
  let ?pd = "crossing_data 0 (1 / 2) [car_A] None"
  let ?m = "crossing_module (crossing_param 2 8) STOP None"
  let ?ll = "north_lane 10 0 10 [''turn_direction'' \<mapsto> ''straight''] [TrafficLight]"
  note init = crossing_module_init [of 0 "1 / 2" "[car_A]" None "crossing_param 2 8" STOP None]
  have ll: "laneletLayer (lanelet_map ?pd) 10 = Some ?ll"
    by (simp add: crossing_map_def)
  have m: "?m = ?m\<lparr>m_state_machine := m_state_machine ?m, m_debug_data := m_debug_data ?m\<rparr>"
    by simp
  note pre = crossing_prelude [of ?m "1 / 2" "[car_A]" None crossing_clock, simplified]
  obtain dbg where det: "detect crossing_lib ?pd crossing_clock ?m crossing_path 2 0
      (fresh_debug_data crossing_lib ?pd ?m crossing_path) = Inr (True, False, dbg)"
    using crossing_detect(2) [of ?m 2 8 None] by auto
  have out: "cycle_outcome (modifyPathVelocity crossing_lib ?pd crossing_clock ?m crossing_path) =
      Inr (True, [10, 10, 8, 8, 8], STOP)"
    using crossing_cycle(2) [of ?m 2 8 None]
    by (simp add: Let_def requested_state_def is_entry_prohibited_def
        isTargetExternalInputStatus_def setStateWithMarginTime_def setState_def)
  then obtain ok path' sr m' where res:
    "modifyPathVelocity crossing_lib ?pd crossing_clock ?m crossing_path = Inr (ok, path', sr, m')"
    using cycle_outcome_InrD by blast
  with out have obs: "ok" "map point_twist_linear_x path' = [10, 10, 8, 8, 8]"
    "getState (m_state_machine m') = STOP"
    by (simp_all add: cycle_outcome_Inr)
  from stop_velocity_policy [OF init ll m pre det res obs(3)]
  have "length path' = 5" "\<not> dbg_stop_required (m_debug_data m')"
    by (simp_all add: crossing_velocities north_lane_def attributeOr_def)
  with init res obs show ?thesis by simp
qed

text \<open>
  With a decel velocity of zero the same cycle writes zero from the stop line on, although
  no stuck vehicle is detected, the lanelet has a traffic light and its turn direction
  is ``straight'': a written velocity of zero does not tell that a hard stop was required.
\<close>

theorem zero_velocity_counterexample:
  "IntersectionModule_init 10 (crossing_data 0 (1 / 2) [car_A] None) (crossing_param 2 0)
     \<lparr>m_state = STOP, m_margin_time = 0, m_start_time = None\<rparr> =
     Inr (crossing_module (crossing_param 2 0) STOP None) \<and>
   m_has_traffic_light (crossing_module (crossing_param 2 0) STOP None) \<and>
   m_turn_direction (crossing_module (crossing_param 2 0) STOP None) = ''straight'' \<and>
   detect_outcome
     (detect crossing_lib (crossing_data 0 (1 / 2) [car_A] None) crossing_clock
        (crossing_module (crossing_param 2 0) STOP None) crossing_path 2 0
        (fresh_debug_data crossing_lib (crossing_data 0 (1 / 2) [car_A] None)
           (crossing_module (crossing_param 2 0) STOP None) crossing_path)) =
     Inr (True, False) \<and>
   cycle_outcome
     (modifyPathVelocity crossing_lib (crossing_data 0 (1 / 2) [car_A] None) crossing_clock
        (crossing_module (crossing_param 2 0) STOP None) crossing_path) =
     Inr (True, [10, 10, 0, 0, 0], STOP)"
proof -
  let ?pd = "crossing_data 0 (1 / 2) [car_A] None"
  let ?m = "crossing_module (crossing_param 2 0) STOP None"
  obtain dbg where det: "detect crossing_lib ?pd crossing_clock ?m crossing_path 2 0
      (fresh_debug_data crossing_lib ?pd ?m crossing_path) = Inr (True, False, dbg)"
    using crossing_detect(2) [of ?m 2 0 None] by auto
  have out: "cycle_outcome (modifyPathVelocity crossing_lib ?pd crossing_clock ?m crossing_path) =
      Inr (True, [10, 10, 0, 0, 0], STOP)"
    using crossing_cycle(2) [of ?m 2 0 None]
    by (simp add: Let_def requested_state_def is_entry_prohibited_def
        isTargetExternalInputStatus_def setStateWithMarginTime_def setState_def)
  from det out crossing_module_init [of 0 "1 / 2" "[car_A]" None "crossing_param 2 0" STOP None]
  show ?thesis by (simp add: detect_outcome_Inr)
qed

subsection \<open>Past the pass-judge line\<close>



subsection \<open>The same snapshot twice\<close>

text \<open>
  With a margin time of minus one second, in STOP with no pending request and no object:
  the first cycle records the clock reading as the start of the margin time and stops;
  the second cycle on the same snapshot finds zero seconds elapsed, more than the margin
  time, changes to GO and leaves the path as it was.
\<close>

theorem negative_margin_counterexample:
  "cycle_outcome
     (modifyPathVelocity crossing_lib (crossing_data 0 (1 / 2) [] None) crossing_clock
        (crossing_module (crossing_param (- 1) 8) STOP None) crossing_path) =
     Inr (True, [10, 10, 8, 8, 8], STOP) \<and>
   cycle_outcome
     (evaluate_again crossing_lib (crossing_data 0 (1 / 2) [] None) crossing_clock
        (crossing_module (crossing_param (- 1) 8) STOP None) crossing_path) =
     Inr (True, [10, 10, 10, 10, 10], GO)"
  using crossing_cycle(1) [of "crossing_module (crossing_param (- 1) 8) STOP None" "- 1" 8 None]
    crossing_again [of "crossing_module (crossing_param (- 1) 8) STOP None" "- 1" 8 None]
  by (simp add: Let_def requested_state_def is_entry_prohibited_def
      isTargetExternalInputStatus_def setStateWithMarginTime_def setState_def seconds_def)

text \<open>With a margin time of two seconds the second cycle gives what the first gave.\<close>

theorem reevaluation_idempotent_witness:
  "0 \<le> m_margin_time (m_state_machine (crossing_module (crossing_param 2 8) STOP None)) \<and>
   (\<exists>path' sr m' m''.
      modifyPathVelocity crossing_lib (crossing_data 0 (1 / 2) [] None) crossing_clock
        (crossing_module (crossing_param 2 8) STOP None) crossing_path =
        Inr (True, path', sr, m') \<and>
      map point_twist_linear_x path' = [10, 10, 8, 8, 8] \<and>
      m_state_machine m' =
        \<lparr>m_state = STOP, m_margin_time = 2, m_start_time = Some 100000000000\<rparr> \<and>
      modifyPathVelocity crossing_lib (crossing_data 0 (1 / 2) [] None) crossing_clock m'
        crossing_path = Inr (True, path', sr, m'') \<and>
      m_state_machine m'' = m_state_machine m')"
proof -
  let ?pd = "crossing_data 0 (1 / 2) [] None"
  let ?m = "crossing_module (crossing_param 2 8) STOP None"
  have margin: "0 \<le> m_margin_time (m_state_machine ?m)"
    by simp
  note pre = crossing_prelude [of ?m "1 / 2" "[]" None crossing_clock, simplified]
  obtain dbg where det: "detect crossing_lib ?pd crossing_clock ?m crossing_path 2 0
      (fresh_debug_data crossing_lib ?pd ?m crossing_path) = Inr (False, False, dbg)"
    using crossing_detect(1) [of ?m 2 8 None] by auto
  have out: "cycle_outcome (modifyPathVelocity crossing_lib ?pd crossing_clock ?m crossing_path) =
      Inr (True, [10, 10, 8, 8, 8], STOP)"
    using crossing_cycle(1) [of ?m 2 8 None]
    by (simp add: Let_def requested_state_def is_entry_prohibited_def
        isTargetExternalInputStatus_def setStateWithMarginTime_def setState_def)
  then obtain ok path' sr m' where res:
    "modifyPathVelocity crossing_lib ?pd crossing_clock ?m crossing_path = Inr (ok, path', sr, m')"
    using cycle_outcome_InrD by blast
  with out have obs: "ok" "map point_twist_linear_x path' = [10, 10, 8, 8, 8]"
    by (simp_all add: cycle_outcome_Inr)
  have sm: "m_state_machine m' =
      \<lparr>m_state = STOP, m_margin_time = 2, m_start_time = Some 100000000000\<rparr>"
    using modifyPathVelocity_state_machine [OF pre det res]
    by (simp add: requested_state_def is_entry_prohibited_def isTargetExternalInputStatus_def
        setStateWithMarginTime_def setState_def)
  from reevaluation_idempotent [OF margin res] obtain m'' where
    "modifyPathVelocity crossing_lib ?pd crossing_clock m' crossing_path =
       Inr (ok, path', sr, m'')" "m_state_machine m'' = m_state_machine m'"
    by blast
  with margin res obs sm show ?thesis by auto
qed

subsection \<open>A standing bicycle\<close>

text \<open>
  A standing object five metres north, inside the stuck-vehicle detection area of the
  vehicle at the start of the lane: a bicycle is not a stuck vehicle, a truck is.
\<close>

theorem bicycle_never_stuck_witness:
  "list_all (\<lambda>object. semantic_type object = BICYCLE) [standing 5 BICYCLE] \<and>
   isTargetCollisionVehicleType (standing 5 BICYCLE) \<and>
   \<not> isTargetStuckVehicleType (standing 5 BICYCLE) \<and>
   stuck_outcome
     (checkStuckVehicleInIntersection crossing_lib (crossing_data 0 (1 / 2) [] None)
        (crossing_param 2 8) 10 crossing_path 0 2 [standing 5 BICYCLE] DebugData_init) =
     Inr (False, []) \<and>
   stuck_outcome
     (checkStuckVehicleInIntersection crossing_lib (crossing_data 0 (1 / 2) [] None)
        (crossing_param 2 8) 10 crossing_path 0 2 [standing 6 TRUCK] DebugData_init) =
     Inr (True, [6])"
proof -
  let ?pd = "crossing_data 0 (1 / 2) [] None"
  have kind: "semantic_type (standing 5 BICYCLE) = BICYCLE"
    by (simp add: standing_def)
  note fact = bicycle_never_stuck [of "standing 5 BICYCLE" crossing_lib ?pd "crossing_param 2 8"
      10 crossing_path 0 2 "[standing 5 BICYCLE]" DebugData_init]
  from fact kind have types: "isTargetCollisionVehicleType (standing 5 BICYCLE)"
    "\<not> isTargetStuckVehicleType (standing 5 BICYCLE)"
    by simp_all
  from fact kind have "checkStuckVehicleInIntersection crossing_lib ?pd (crossing_param 2 8) 10
      crossing_path 0 2 [standing 5 BICYCLE] DebugData_init =
    checkStuckVehicleInIntersection crossing_lib ?pd (crossing_param 2 8) 10
      crossing_path 0 2 [] DebugData_init"
    by simp
  then have bicycle: "stuck_outcome
     (checkStuckVehicleInIntersection crossing_lib ?pd (crossing_param 2 8) 10 crossing_path 0 2
        [standing 5 BICYCLE] DebugData_init) = Inr (False, [])"
    by (simp add: crossing_stuck(1) stuck_outcome_Inr DebugData_init_def)
  have truck: "stuck_outcome
     (checkStuckVehicleInIntersection crossing_lib ?pd (crossing_param 2 8) 10 crossing_path 0 2
        [standing 6 TRUCK] DebugData_init) = Inr (True, [6])"
    by (simp add: checkStuckVehicleInIntersection_def crossing_ego_polygon bind_result_def
        isTargetStuckVehicleType_def standing_def toFootprintPolygon_def box_defs
        stuck_outcome_Inr DebugData_init_def Let_def)
  from kind types bicycle truck show ?thesis by simp
qed


end
